theory Spec2Isabelle
  imports Complex_Main "HOL-Library.Sublist"
begin

section \<open>Health monitoring: Stopwatch and HealthEventMonitor\<close>

text \<open>
  Timestamps are the integer milliseconds that \<^verbatim>\<open>Date.now()\<close> returns. The clock is not
  part of the object state: every method that reads it takes the reading as its first
  argument \<open>now\<close>, and the reads made inside one method call see the same instant.
  \<^verbatim>\<open>Math.floor(ms / 1000)\<close> on integers is \<open>div\<close>, which rounds towards minus infinity.
\<close>

text \<open>The value of \<^verbatim>\<open>elapsed\<close>: a whole number of seconds, or JavaScript's \<^verbatim>\<open>Infinity\<close>.\<close>

datatype seconds = Secs int | Infinity

record Stopwatch =
  autoStart :: bool
  tsStart :: "int option"

text \<open>\<^verbatim>\<open>restart() { this.tsStart = Date.now(); }\<close>\<close>

definition restart :: "int \<Rightarrow> Stopwatch \<Rightarrow> Stopwatch" where
  "restart now sw = sw\<lparr>tsStart := Some now\<rparr>"

text \<open>The constructor: the fields start as \<^verbatim>\<open>false\<close> and \<^verbatim>\<open>null\<close>; a truthy argument
  sets \<^verbatim>\<open>autoStart\<close> and restarts.\<close>

definition new_Stopwatch :: "int \<Rightarrow> bool \<Rightarrow> Stopwatch" where
  "new_Stopwatch now auto =
     (if auto then restart now \<lparr>autoStart = True, tsStart = None\<rparr>
      else \<lparr>autoStart = False, tsStart = None\<rparr>)"

definition reset :: "int \<Rightarrow> Stopwatch \<Rightarrow> Stopwatch" where
  "reset now sw = (if autoStart sw then restart now sw else sw\<lparr>tsStart := None\<rparr>)"

definition started :: "Stopwatch \<Rightarrow> bool" where
  "started sw = (tsStart sw \<noteq> None)"

definition elapsed :: "int \<Rightarrow> Stopwatch \<Rightarrow> seconds" where
  "elapsed now sw =
     (case tsStart sw of
        None \<Rightarrow> Infinity
      | Some t \<Rightarrow> (let elapsedMs = now - t in Secs (elapsedMs div 1000)))"

definition isOver :: "int \<Rightarrow> int \<Rightarrow> Stopwatch \<Rightarrow> bool" where
  "isOver now secs sw =
     (case elapsed now sw of
        Infinity \<Rightarrow> False
      | Secs e \<Rightarrow> e \<ge> secs)"

datatype MonitorState = PENDING | HEALTHY | DELAYED | FATAL

record HealthEventMonitor =
  swLastHealthyEvent :: Stopwatch
  firstHealthyEvent :: "int option"
  delayLimit :: int
  fatalLimit :: int

text \<open>\<^verbatim>\<open>new HealthEventMonitor(delayLimit, fatalLimit)\<close>: the stopwatch is built without
  auto start, so its constructor reads no clock.\<close>

definition new_HealthEventMonitor :: "int \<Rightarrow> int \<Rightarrow> HealthEventMonitor" where
  "new_HealthEventMonitor delay fatal =
     \<lparr>swLastHealthyEvent = \<lparr>autoStart = False, tsStart = None\<rparr>,
      firstHealthyEvent = None,
      delayLimit = delay,
      fatalLimit = fatal\<rparr>"

definition monitor_reset :: "int \<Rightarrow> HealthEventMonitor \<Rightarrow> HealthEventMonitor" where
  "monitor_reset now m =
     m\<lparr>swLastHealthyEvent := reset now (swLastHealthyEvent m),
       firstHealthyEvent := None\<rparr>"

text \<open>\<^verbatim>\<open>this.firstHealthyEvent ??= Date.now()\<close> assigns only when the field is
  \<^verbatim>\<open>undefined\<close>.\<close>

definition markHealthy :: "int \<Rightarrow> HealthEventMonitor \<Rightarrow> HealthEventMonitor" where
  "markHealthy now m =
     m\<lparr>swLastHealthyEvent := restart now (swLastHealthyEvent m),
       firstHealthyEvent :=
         (case firstHealthyEvent m of None \<Rightarrow> Some now | Some f \<Rightarrow> Some f)\<rparr>"

record HealthEventMonitorStatus =
  state :: MonitorState
  secsSinceLast :: seconds
  secsSinceFirst :: seconds

text \<open>\<^verbatim>\<open>this.firstHealthyEvent ? Math.floor(...) : Infinity\<close> tests the truthiness of a
  number or \<^verbatim>\<open>undefined\<close>: \<^verbatim>\<open>undefined\<close> and the number \<^verbatim>\<open>0\<close> are both falsy.\<close>

definition status :: "int \<Rightarrow> HealthEventMonitor \<Rightarrow> HealthEventMonitorStatus" where
  "status now m =
     \<lparr>state =
        (if \<not> started (swLastHealthyEvent m) then PENDING
         else if isOver now (fatalLimit m) (swLastHealthyEvent m) then FATAL
         else if isOver now (delayLimit m) (swLastHealthyEvent m) then DELAYED
         else HEALTHY),
      secsSinceLast = elapsed now (swLastHealthyEvent m),
      secsSinceFirst =
        (case firstHealthyEvent m of
           None \<Rightarrow> Infinity
         | Some f \<Rightarrow> if f \<noteq> 0 then Secs ((now - f) div 1000) else Infinity)\<rparr>"

text \<open>
  A history of a monitor: the calls made on it since its construction, oldest first, each
  with its clock reading. \<open>since_reset\<close> keeps the calls after the last \<^verbatim>\<open>reset()\<close>, all of
  them \<^verbatim>\<open>markHealthy()\<close>; \<open>first_mark\<close> is the clock reading of the first of these.
\<close>

datatype monitor_op = MarkHealthy (clock: int) | is_Reset: Reset (clock: int)

fun monitor_step :: "HealthEventMonitor \<Rightarrow> monitor_op \<Rightarrow> HealthEventMonitor" where
  "monitor_step m (MarkHealthy t) = markHealthy t m"
| "monitor_step m (Reset t) = monitor_reset t m"

definition monitor_run :: "monitor_op list \<Rightarrow> HealthEventMonitor \<Rightarrow> HealthEventMonitor" where
  "monitor_run ops m = foldl monitor_step m ops"

definition since_reset :: "monitor_op list \<Rightarrow> monitor_op list" where
  "since_reset ops = rev (takeWhile (\<lambda>op. \<not> is_Reset op) (rev ops))"

definition first_mark :: "monitor_op list \<Rightarrow> int option" where
  "first_mark ops = (case since_reset ops of [] \<Rightarrow> None | op # _ \<Rightarrow> Some (clock op))"

section \<open>Performance collector: data\<close>

text \<open>
  JavaScript numbers that hold counts, timestamps and player numbers are modelled as \<open>int\<close>,
  numbers that hold ratios and memory sizes as exact rationals (rounding of floating point is
  outside the model). A number that may be \<^verbatim>\<open>undefined\<close> or \<^verbatim>\<open>null\<close> is an option.
\<close>

text \<open>The three tracked threads; \<^verbatim>\<open>SSPerfCountsType\<close> and the \<^verbatim>\<open>perf\<close> field of a data
  entry both have this shape.\<close>

record 'a threads =
  svMain :: 'a
  svNetwork :: 'a
  svSync :: 'a

text \<open>Raw cumulative counters of one thread.\<close>

record SSPerfCount =
  count :: int
  buckets :: "int list"

text \<open>Histogram of one thread: \<^verbatim>\<open>{count, freqs}\<close>. The field \<^verbatim>\<open>count\<close> is named
  \<open>count_h\<close> here, since a record field name is global.\<close>

record SSPerfHist =
  count_h :: int
  freqs :: "rat list"

type_synonym SSPerfCountsType = "SSPerfCount threads"
type_synonym SSPerfHistType = "SSPerfHist threads"

text \<open>A log entry, discriminated by its \<^verbatim>\<open>type\<close> field
  (\<^verbatim>\<open>'svBoot'\<close>, \<^verbatim>\<open>'svClose'\<close>, \<^verbatim>\<open>'data'\<close>).\<close>

datatype SSLogEntry =
    is_svBoot: svBoot (ts: int) (bootTime: int)
  | is_svClose: svClose (ts: int) (reason: string)
  | isSSLogDataType: data (ts: int) (players: int) (fxsMemory: "rat option")
      (nodeMemory: "rat option") (perf: SSPerfHistType)

type_synonym SSLogType = "SSLogEntry list"

record NodeMemory =
  used :: rat
  total :: rat

text \<open>The value of \<^verbatim>\<open>lastPerfSaved\<close>: \<^verbatim>\<open>{ts, counts}\<close> (\<open>ts\<close> is taken by the log
  entries).\<close>

record PerfSaved =
  ts_saved :: int
  counts :: SSPerfCountsType

text \<open>The document written to \<^verbatim>\<open>statsData.json\<close>: \<^verbatim>\<open>{version, lastPerfBoundaries, log}\<close>.\<close>

record 'b SSFileType =
  version :: int
  lastPerfBoundaries_f :: "'b option"
  log_f :: SSLogType

text \<open>
  The fields of the class, and with them the content of the file at \<^verbatim>\<open>statsDataPath\<close>
  (\<open>None\<close>: no readable document). The type \<open>'b\<close> is \<^verbatim>\<open>SSPerfBoundariesType\<close>, whose
  declaration is not part of the sources at hand.
\<close>

record 'b PerformanceCollector =
  statsLog :: SSLogType
  lastFxsMemory :: "rat option"
  lastNodeMemory :: "NodeMemory option"
  lastPerfBoundaries :: "'b option"
  lastPerfCounts :: "SSPerfCountsType option"
  lastPerfSaved :: "PerfSaved option"
  statsDataFile :: "'b SSFileType option"

text \<open>
  What the module imports and does not define: the constants of \<^verbatim>\<open>statsConfigs\<close>, the
  log optimizer of \<^verbatim>\<open>statsLogOptimizer\<close> (called for its effect on the array it is given:
  the function maps the array's content before the call to its content after), the built-in
  \<^verbatim>\<open>JSON.stringify\<close> on boundaries, and \<^verbatim>\<open>d3array.median\<close>.
\<close>

record 'b env =
  PERF_DATA_BUCKET_COUNT :: nat
  PERF_DATA_MIN_TICKS :: int
  PERF_DATA_INITIAL_RESOLUTION :: int
  optimizeStatsLog :: "SSLogType \<Rightarrow> SSLogType"
  JSON_stringify :: "'b \<Rightarrow> string"
  d3_median :: "rat option list \<Rightarrow> rat option"

definition megabyte :: rat where
  "megabyte = 1024 * 1024"

definition STATS_DATA_FILE_VERSION :: int where
  "STATS_DATA_FILE_VERSION = 1"

text \<open>A JavaScript value of which only its being a string and its truthiness matter.\<close>

datatype jsval = JString string | JOther bool

fun truthy :: "jsval \<Rightarrow> bool" where
  "truthy (JString s) = (s \<noteq> [])"
| "truthy (JOther b) = b"

fun is_string :: "jsval \<Rightarrow> bool" where
  "is_string (JString s) = True"
| "is_string (JOther b) = False"

text \<open>The outcome of a promise under \<^verbatim>\<open>Promise.allSettled\<close>.\<close>

datatype 'a settled = Fulfilled 'a | Rejected string

datatype error = InvalidFxServerHost jsval | FetchRejected string

section \<open>Performance collector: histogram helpers\<close>

text \<open>
  Modelled from the spec: \<^verbatim>\<open>diffPerfs\<close> of \<^verbatim>\<open>perfUtils\<close> is not among the sources. The
  spec's \<^verbatim>\<open>delta(curr, prev)\<close> returns \<^verbatim>\<open>curr\<close> unchanged when \<^verbatim>\<open>prev\<close> is undefined, else the
  difference of the counts and the elementwise difference of the buckets; here for each of
  the three threads.
\<close>

definition delta :: "SSPerfCount \<Rightarrow> SSPerfCount \<Rightarrow> SSPerfCount" where
  "delta cur prv =
     \<lparr>count = count cur - count prv,
      buckets = map2 (\<lambda>c p. c - p) (buckets cur) (buckets prv)\<rparr>"

definition diffPerfs :: "SSPerfCountsType \<Rightarrow> SSPerfCountsType option \<Rightarrow> SSPerfCountsType" where
  "diffPerfs cur prv =
     (case prv of
        None \<Rightarrow> cur
      | Some p \<Rightarrow>
          \<lparr>svMain = delta (svMain cur) (svMain p),
           svNetwork = delta (svNetwork cur) (svNetwork p),
           svSync = delta (svSync cur) (svSync p)\<rparr>)"

text \<open>
  Modelled from the spec: \<^verbatim>\<open>perfCountsToHist\<close> of \<^verbatim>\<open>perfUtils\<close> is not among the
  sources. The spec's \<open>toHistogram(counters)\<close> returns the count and the frequencies
  \<open>buckets[i] / count\<close>, all zero when the count is zero; here for each of the three threads.
\<close>

definition toHistogram :: "SSPerfCount \<Rightarrow> SSPerfHist" where
  "toHistogram c =
     \<lparr>count_h = count c,
      freqs = map (\<lambda>b. if count c = 0 then 0 else of_int b / of_int (count c)) (buckets c)\<rparr>"

definition perfCountsToHist :: "SSPerfCountsType \<Rightarrow> SSPerfHistType" where
  "perfCountsToHist c =
     \<lparr>svMain = toHistogram (svMain c),
      svNetwork = toHistogram (svNetwork c),
      svSync = toHistogram (svSync c)\<rparr>"

section \<open>Performance collector: operations\<close>

text \<open>
  Each operation runs to its end before the next one starts: the asynchronous save is
  taken at the point of its call. The clock reading is an argument, as above.
\<close>

definition new_PerformanceCollector :: "'b SSFileType option \<Rightarrow> 'b PerformanceCollector" where
  "new_PerformanceCollector file =
     \<lparr>statsLog = [],
      lastFxsMemory = None,
      lastNodeMemory = None,
      lastPerfBoundaries = None,
      lastPerfCounts = None,
      lastPerfSaved = None,
      statsDataFile = file\<rparr>"

definition resetPerfState :: "'b PerformanceCollector \<Rightarrow> 'b PerformanceCollector" where
  "resetPerfState st = st\<lparr>lastPerfCounts := None, lastPerfSaved := None\<rparr>"

definition resetMemoryState :: "'b PerformanceCollector \<Rightarrow> 'b PerformanceCollector" where
  "resetMemoryState st = st\<lparr>lastNodeMemory := None, lastFxsMemory := None\<rparr>"

text \<open>
  \<^verbatim>\<open>saveStatsHistory\<close>: the optimizer works on the log in place, then the whole document is
  written. A failing write (\<open>wr = False\<close>) is caught and logged; the log stays optimized.
\<close>

definition saveStatsHistory ::
  "'b env \<Rightarrow> bool \<Rightarrow> 'b PerformanceCollector \<Rightarrow> 'b PerformanceCollector" where
  "saveStatsHistory e wr st =
     (let st1 = st\<lparr>statsLog := optimizeStatsLog e (statsLog st)\<rparr>;
          savePerfData =
            \<lparr>version = STATS_DATA_FILE_VERSION,
             lastPerfBoundaries_f = lastPerfBoundaries st1,
             log_f = statsLog st1\<rparr>
      in if wr then st1\<lparr>statsDataFile := Some savePerfData\<rparr> else st1)"

text \<open>
  \<^verbatim>\<open>loadStatsHistory\<close>: a file that cannot be read, parsed or validated is \<open>None\<close>; that
  and a wrong version throw inside the \<^verbatim>\<open>try\<close>, and the catch only logs.
\<close>

definition loadStatsHistory ::
  "'b env \<Rightarrow> 'b PerformanceCollector \<Rightarrow> 'b PerformanceCollector" where
  "loadStatsHistory e st =
     (case statsDataFile st of
        None \<Rightarrow> st
      | Some fileData \<Rightarrow>
          if version fileData \<noteq> STATS_DATA_FILE_VERSION then st
          else
            (let st1 = st\<lparr>lastPerfBoundaries := lastPerfBoundaries_f fileData,
                          statsLog := log_f fileData\<rparr>;
                 st2 = resetPerfState st1
             in st2\<lparr>statsLog := optimizeStatsLog e (statsLog st2)\<rparr>))"

definition logServerBoot ::
  "'b env \<Rightarrow> int \<Rightarrow> bool \<Rightarrow> int \<Rightarrow> 'b PerformanceCollector \<Rightarrow> 'b PerformanceCollector" where
  "logServerBoot e now wr bootTime_arg st =
     (let st1 = resetMemoryState (resetPerfState st);
          st2 = (if statsLog st1 \<noteq> [] \<and> is_svBoot (last (statsLog st1))
                 then st1\<lparr>statsLog := butlast (statsLog st1)\<rparr> else st1);
          st3 = st2\<lparr>statsLog := statsLog st2 @ [svBoot now bootTime_arg]\<rparr>
      in saveStatsHistory e wr st3)"

definition logServerClose ::
  "'b env \<Rightarrow> int \<Rightarrow> bool \<Rightarrow> string \<Rightarrow> 'b PerformanceCollector \<Rightarrow> 'b PerformanceCollector" where
  "logServerClose e now wr reason_arg st =
     (let st1 = resetMemoryState (resetPerfState st)
      in if statsLog st1 \<noteq> [] \<and> is_svClose (last (statsLog st1)) then st1
         else if statsLog st1 \<noteq> [] \<and> is_svBoot (last (statsLog st1))
           then st1\<lparr>statsLog := butlast (statsLog st1)\<rparr>
         else saveStatsHistory e wr (st1\<lparr>statsLog := statsLog st1 @ [svClose now reason_arg]\<rparr>))"

text \<open>
  \<^verbatim>\<open>logServerNodeMemory\<close>: the result of the schema validation is the argument \<open>valid\<close>
  (the schema is not among the sources). \<^verbatim>\<open>toFixed(2)\<close> picks the nearest number with two
  decimals, the larger one on a tie.
\<close>

definition toFixed2 :: "rat \<Rightarrow> rat" where
  "toFixed2 x = of_int (round (x * 100)) / 100"

definition logServerNodeMemory ::
  "bool \<Rightarrow> rat \<Rightarrow> rat \<Rightarrow> 'b PerformanceCollector \<Rightarrow> 'b PerformanceCollector" where
  "logServerNodeMemory valid heapUsed heapTotal st =
     (if \<not> valid then st
      else st\<lparr>lastNodeMemory :=
                Some \<lparr>used = toFixed2 (heapUsed / megabyte),
                      total = toFixed2 (heapTotal / megabyte)\<rparr>\<rparr>)"

text \<open>\<^verbatim>\<open>getRecentStats\<close>; the tally comes from the player list manager.\<close>

record 'j RecentStats =
  joinLeaveTally30m :: 'j
  fxsMemory_r :: "rat option"
  nodeMemory_r :: "NodeMemory option"
  perf_r :: "SSPerfHistType option"

definition getRecentStats :: "'j \<Rightarrow> 'b PerformanceCollector \<Rightarrow> 'j RecentStats" where
  "getRecentStats joinLeaveTally st =
     \<lparr>joinLeaveTally30m = joinLeaveTally,
      fxsMemory_r = lastFxsMemory st,
      nodeMemory_r = lastNodeMemory st,
      perf_r = (case lastPerfCounts st of
                  Some c \<Rightarrow> Some (perfCountsToHist c)
                | None \<Rightarrow> None)\<rparr>"

subsection \<open>collectStats\<close>

text \<open>What one run of \<^verbatim>\<open>collectStats\<close> reads from outside the object.\<close>

record 'b collectInput =
  now_c :: int
  fxChild_null :: bool
  playerlistManager_null :: bool
  currentStatus :: string
  debugExternalStatsSource :: jsval
  fxServerHost :: jsval
  fetchRawPerfDataRes :: "('b \<times> SSPerfCountsType) settled"
  fetchFxsMemoryRes :: "rat option settled"
  onlineCount :: int
  writeFile_ok :: bool

text \<open>The check for a first collection or changed boundaries.\<close>

definition checkBoundaries ::
  "'b env \<Rightarrow> 'b \<Rightarrow> 'b PerformanceCollector \<Rightarrow> 'b PerformanceCollector" where
  "checkBoundaries e perfBoundaries st =
     (case lastPerfBoundaries st of
        None \<Rightarrow> resetPerfState (st\<lparr>lastPerfBoundaries := Some perfBoundaries\<rparr>)
      | Some lastB \<Rightarrow>
          if lastPerfCounts st = None \<or> lastPerfSaved st = None
            then resetPerfState (st\<lparr>lastPerfBoundaries := Some perfBoundaries\<rparr>)
          else if JSON_stringify e perfBoundaries \<noteq> JSON_stringify e lastB
            then resetPerfState
                   (st\<lparr>statsLog := [], lastPerfBoundaries := Some perfBoundaries\<rparr>)
          else st)"

text \<open>The check for a counter that went backwards.\<close>

definition checkCounterReset ::
  "SSPerfCountsType \<Rightarrow> 'b PerformanceCollector \<Rightarrow> 'b PerformanceCollector" where
  "checkCounterReset perfMetrics st =
     (if (case lastPerfCounts st of
            None \<Rightarrow> False
          | Some c \<Rightarrow> count (svMain c) > count (svMain perfMetrics))
        then resetPerfState st
      else if (case lastPerfSaved st of
                 None \<Rightarrow> False
               | Some s \<Rightarrow> count (svMain (counts s)) > count (svMain perfMetrics))
        then st\<lparr>lastPerfSaved := None\<rparr>
      else st)"

text \<open>The histogram to save, if any: \<^verbatim>\<open>perfHistToSave\<close>.\<close>

definition perfHistToSave ::
  "'b env \<Rightarrow> int \<Rightarrow> SSPerfCountsType \<Rightarrow> SSPerfHistType \<Rightarrow> PerfSaved option
     \<Rightarrow> SSPerfHistType option" where
  "perfHistToSave e now perfMetrics latestPerfHist saved =
     (case saved of
        None \<Rightarrow> Some latestPerfHist
      | Some s \<Rightarrow>
          if now - ts_saved s \<ge> PERF_DATA_INITIAL_RESOLUTION e
            then Some (perfCountsToHist (diffPerfs perfMetrics (Some (counts s))))
          else None)"

text \<open>The part of \<^verbatim>\<open>collectStats\<close> after the check of the tick counts.\<close>

definition processSample ::
  "'b env \<Rightarrow> 'b collectInput \<Rightarrow> 'b \<Rightarrow> SSPerfCountsType \<Rightarrow> 'b PerformanceCollector
     \<Rightarrow> 'b PerformanceCollector" where
  "processSample e inp perfBoundaries perfMetrics st =
     (let st1 = checkBoundaries e perfBoundaries st;
          st2 = checkCounterReset perfMetrics st1;
          latestPerfHist = perfCountsToHist (diffPerfs perfMetrics (lastPerfCounts st2));
          st3 = st2\<lparr>lastPerfCounts := Some perfMetrics\<rparr>;
          now = now_c inp
      in case perfHistToSave e now perfMetrics latestPerfHist (lastPerfSaved st3) of
           None \<Rightarrow> st3
         | Some h \<Rightarrow>
             (let st4 = st3\<lparr>lastPerfSaved := Some \<lparr>ts_saved = now, counts = perfMetrics\<rparr>\<rparr>;
                  currSnapshot =
                    data now (onlineCount inp) (lastFxsMemory st4)
                      (map_option used (lastNodeMemory st4)) h;
                  st5 = st4\<lparr>statsLog := statsLog st4 @ [currSnapshot]\<rparr>
              in saveStatsHistory e (writeFile_ok inp) st5))"

text \<open>
  \<^verbatim>\<open>collectStats\<close>: the new state, and the error with which the promise rejects, if any.
\<close>

definition collectStats ::
  "'b env \<Rightarrow> 'b collectInput \<Rightarrow> 'b PerformanceCollector
     \<Rightarrow> error option \<times> 'b PerformanceCollector" where
  "collectStats e inp st =
     (if fxChild_null inp then (None, st)
      else if playerlistManager_null inp then (None, st)
      else if currentStatus inp \<noteq> ''ONLINE'' then (None, st)
      else
        (let host = (if truthy (debugExternalStatsSource inp)
                     then debugExternalStatsSource inp else fxServerHost inp)
         in if \<not> is_string host \<or> \<not> truthy host then (Some (InvalidFxServerHost host), st)
            else
              (let st1 = (case fetchFxsMemoryRes inp of
                            Fulfilled v \<Rightarrow> st\<lparr>lastFxsMemory := v\<rparr>
                          | Rejected r \<Rightarrow> st)
               in case fetchRawPerfDataRes inp of
                    Rejected r \<Rightarrow> (Some (FetchRejected r), st1)
                  | Fulfilled (perfBoundaries, perfMetrics) \<Rightarrow>
                      if count (svMain perfMetrics) < PERF_DATA_MIN_TICKS e
                         \<or> count (svNetwork perfMetrics) < PERF_DATA_MIN_TICKS e
                         \<or> count (svSync perfMetrics) < PERF_DATA_MIN_TICKS e
                        then (None, st1)
                      else (None, processSample e inp perfBoundaries perfMetrics st1))))"

subsection \<open>getServerPerfSummary\<close>

text \<open>
  The numbers of the summary: a finite number, or \<open>None\<close> for \<^verbatim>\<open>NaN\<close> and the infinities.
  Reading an array past its end gives \<^verbatim>\<open>undefined\<close>, which arithmetic turns into
  \<^verbatim>\<open>NaN\<close>; \<^verbatim>\<open>NaN\<close> absorbs sums and products; dividing by zero gives no finite number.
\<close>

type_synonym jsnum = "rat option"

definition js_add :: "jsnum \<Rightarrow> jsnum \<Rightarrow> jsnum" where
  "js_add a b = (case a of None \<Rightarrow> None | Some x \<Rightarrow> (case b of None \<Rightarrow> None | Some y \<Rightarrow> Some (x + y)))"

definition js_mul :: "jsnum \<Rightarrow> jsnum \<Rightarrow> jsnum" where
  "js_mul a b = (case a of None \<Rightarrow> None | Some x \<Rightarrow> (case b of None \<Rightarrow> None | Some y \<Rightarrow> Some (x * y)))"

definition js_div :: "jsnum \<Rightarrow> jsnum \<Rightarrow> jsnum" where
  "js_div a b =
     (case a of
        None \<Rightarrow> None
      | Some x \<Rightarrow> (case b of None \<Rightarrow> None | Some y \<Rightarrow> if y = 0 then None else Some (x / y)))"

definition js_index :: "rat list \<Rightarrow> nat \<Rightarrow> jsnum" where
  "js_index xs i = (if i < length xs then Some (xs ! i) else None)"

record scanAcc =
  cumBuckets :: "jsnum list"
  cumTicks :: jsnum
  totalSnapshots :: nat
  players_acc :: "int list"
  fxsMemory_acc :: "rat option list"
  nodeMemory_acc :: "rat option list"

text \<open>The body of the inner loop over \<^verbatim>\<open>bIndex\<close>.\<close>

definition bucketStep :: "SSLogEntry \<Rightarrow> scanAcc \<Rightarrow> nat \<Rightarrow> scanAcc" where
  "bucketStep entry acc bIndex =
     (let tickCount = js_mul (js_index (freqs (svMain (perf entry))) bIndex)
                        (Some (of_int (count_h (svMain (perf entry)))))
      in acc\<lparr>cumTicks := js_add (cumTicks acc) tickCount,
              cumBuckets := (cumBuckets acc)[bIndex := js_add (cumBuckets acc ! bIndex) tickCount]\<rparr>)"

text \<open>The body of the loop over the log.\<close>

definition scanEntry :: "'b env \<Rightarrow> int \<Rightarrow> scanAcc \<Rightarrow> SSLogEntry \<Rightarrow> scanAcc" where
  "scanEntry e tsScanWindowStart acc entry =
     (if ts entry < tsScanWindowStart then acc
      else if \<not> isSSLogDataType entry then acc
      else if count_h (svMain (perf entry)) < PERF_DATA_MIN_TICKS e then acc
      else
        (let acc1 = acc\<lparr>totalSnapshots := totalSnapshots acc + 1,
                        players_acc := players_acc acc @ [players entry],
                        fxsMemory_acc := fxsMemory_acc acc @ [fxsMemory entry],
                        nodeMemory_acc := nodeMemory_acc acc @ [nodeMemory entry]\<rparr>
         in foldl (bucketStep entry) acc1 [0..<PERF_DATA_BUCKET_COUNT e]))"

record PerfSummary =
  snaps :: nat
  freqs_s :: "jsnum list"
  players_s :: "rat option"
  fxsMemory_s :: "rat option"
  nodeMemory_s :: "rat option"

definition getServerPerfSummary ::
  "'b env \<Rightarrow> int \<Rightarrow> 'b PerformanceCollector \<Rightarrow> PerfSummary option" where
  "getServerPerfSummary e now st =
     (let minSnapshots = 36;
          tsScanWindowStart = now - 6 * 60 * 60 * 1000;
          acc0 = \<lparr>cumBuckets = replicate (PERF_DATA_BUCKET_COUNT e) (Some 0),
                  cumTicks = Some 0,
                  totalSnapshots = 0,
                  players_acc = [],
                  fxsMemory_acc = [],
                  nodeMemory_acc = []\<rparr>;
          acc = foldl (scanEntry e tsScanWindowStart) acc0 (statsLog st)
      in if totalSnapshots acc < minSnapshots then None
         else Some
           \<lparr>snaps = totalSnapshots acc,
            freqs_s = map (\<lambda>cumAvg. js_div cumAvg (cumTicks acc)) (cumBuckets acc),
            players_s = d3_median e (map (\<lambda>p. Some (of_int p)) (players_acc acc)),
            fxsMemory_s = d3_median e (fxsMemory_acc acc),
            nodeMemory_s = d3_median e (nodeMemory_acc acc)\<rparr>)"

section \<open>Performance collector: histories, invariant and reference definitions\<close>

text \<open>The host that \<^verbatim>\<open>collectStats\<close> selects, and whether a run gets as far as the two
  fetches: the three precondition checks pass and the host is a non-empty string.\<close>

definition selectedHost :: "'b collectInput \<Rightarrow> jsval" where
  "selectedHost inp =
     (if truthy (debugExternalStatsSource inp) then debugExternalStatsSource inp
      else fxServerHost inp)"

definition reachesFetch :: "'b collectInput \<Rightarrow> bool" where
  "reachesFetch inp =
     (\<not> fxChild_null inp \<and> \<not> playerlistManager_null inp \<and> currentStatus inp = ''ONLINE''
      \<and> is_string (selectedHost inp) \<and> truthy (selectedHost inp))"

text \<open>The check of the tick counts: true when the sample is rejected.\<close>

definition notEnoughTicks :: "'b env \<Rightarrow> SSPerfCountsType \<Rightarrow> bool" where
  "notEnoughTicks e perfMetrics =
     (count (svMain perfMetrics) < PERF_DATA_MIN_TICKS e
      \<or> count (svNetwork perfMetrics) < PERF_DATA_MIN_TICKS e
      \<or> count (svSync perfMetrics) < PERF_DATA_MIN_TICKS e)"

text \<open>The calls made on a collector, each with what it reads from outside: the clock,
  whether the file write succeeds, and its arguments.\<close>

datatype 'b collector_op =
    LogServerBoot int bool int
  | LogServerClose int bool string
  | LogServerNodeMemory bool rat rat
  | CollectStats "'b collectInput"

fun exec :: "'b env \<Rightarrow> 'b PerformanceCollector \<Rightarrow> 'b collector_op \<Rightarrow> 'b PerformanceCollector" where
  "exec e st (LogServerBoot now wr bt) = logServerBoot e now wr bt st"
| "exec e st (LogServerClose now wr r) = logServerClose e now wr r st"
| "exec e st (LogServerNodeMemory valid heapUsed heapTotal) =
     logServerNodeMemory valid heapUsed heapTotal st"
| "exec e st (CollectStats inp) = snd (collectStats e inp st)"

definition run :: "'b env \<Rightarrow> 'b collector_op list \<Rightarrow> 'b PerformanceCollector \<Rightarrow> 'b PerformanceCollector" where
  "run e ops st = foldl (exec e) st ops"

text \<open>
  The calls that give a cached value back after a reset: a run of \<^verbatim>\<open>collectStats\<close> whose
  memory fetch is fulfilled with a number, a run whose counters are fetched and pass the
  tick check, and a memory event that passes validation.
\<close>

fun fetchesMemory :: "'b collector_op \<Rightarrow> bool" where
  "fetchesMemory (CollectStats inp) =
     (reachesFetch inp \<and>
      (case fetchFxsMemoryRes inp of Fulfilled v \<Rightarrow> v \<noteq> None | Rejected r \<Rightarrow> False))"
| "fetchesMemory (LogServerBoot now wr bt) = False"
| "fetchesMemory (LogServerClose now wr r) = False"
| "fetchesMemory (LogServerNodeMemory valid heapUsed heapTotal) = False"

fun samplesPerf :: "'b env \<Rightarrow> 'b collector_op \<Rightarrow> bool" where
  "samplesPerf e (CollectStats inp) =
     (reachesFetch inp \<and>
      (case fetchRawPerfDataRes inp of
         Fulfilled (perfBoundaries, perfMetrics) \<Rightarrow> \<not> notEnoughTicks e perfMetrics
       | Rejected r \<Rightarrow> False))"
| "samplesPerf e (LogServerBoot now wr bt) = False"
| "samplesPerf e (LogServerClose now wr r) = False"
| "samplesPerf e (LogServerNodeMemory valid heapUsed heapTotal) = False"

fun logsNodeMemory :: "'b collector_op \<Rightarrow> bool" where
  "logsNodeMemory (LogServerNodeMemory valid heapUsed heapTotal) = valid"
| "logsNodeMemory (CollectStats inp) = False"
| "logsNodeMemory (LogServerBoot now wr bt) = False"
| "logsNodeMemory (LogServerClose now wr r) = False"

text \<open>An invariant of the two cached samples: a saved sample comes with a last full sample
  whose \<^verbatim>\<open>svMain\<close> count is not lower.\<close>

definition savedBelowFull :: "'b PerformanceCollector \<Rightarrow> bool" where
  "savedBelowFull st =
     (case lastPerfSaved st of
        None \<Rightarrow> True
      | Some s \<Rightarrow>
          (case lastPerfCounts st of
             None \<Rightarrow> False
           | Some c \<Rightarrow> count (svMain (counts s)) \<le> count (svMain c)))"

text \<open>Counters and histograms without a negative entry.\<close>

definition nonNegCount :: "SSPerfCount \<Rightarrow> bool" where
  "nonNegCount c = (0 \<le> count c \<and> list_all (\<lambda>b. 0 \<le> b) (buckets c))"

definition nonNegCounts :: "SSPerfCountsType \<Rightarrow> bool" where
  "nonNegCounts c =
     (nonNegCount (svMain c) \<and> nonNegCount (svNetwork c) \<and> nonNegCount (svSync c))"

definition nonNegHist :: "SSPerfHist \<Rightarrow> bool" where
  "nonNegHist h = (0 \<le> count_h h \<and> list_all (\<lambda>f. 0 \<le> f) (freqs h))"

definition nonNegHists :: "SSPerfHistType \<Rightarrow> bool" where
  "nonNegHists h =
     (nonNegHist (svMain h) \<and> nonNegHist (svNetwork h) \<and> nonNegHist (svSync h))"

text \<open>
  Modelled from the spec: \<^verbatim>\<open>optimizeStatsLog\<close> of \<^verbatim>\<open>statsLogOptimizer\<close> is not among the
  sources. The spec leaves the thinning schedule open and fixes only that the optimizer
  keeps the chronological order, never drops a boot or close marker, thins the data entries,
  adds nothing, never lengthens the log, and changes nothing when run a second time. One
  optimizer within these bounds, with the coarsest schedule: it keeps every marker and the
  newest entry of the log, and drops the other data entries.
\<close>

definition thinningOptimizer :: "SSLogType \<Rightarrow> SSLogType" where
  "thinningOptimizer l =
     (if l = [] then []
      else filter (\<lambda>x. \<not> isSSLogDataType x) (butlast l) @ [last l])"


text \<open>
  The summary in the words of the specification, to compare \<^verbatim>\<open>getServerPerfSummary\<close> with.
  An entry qualifies when it is a data entry, not older than six hours, whose \<^verbatim>\<open>svMain\<close>
  count reaches the minimum. For a qualifying entry and a bucket, the absolute tick count is
  rebuilt as frequency times count. Each bucket's frequency is the sum of its tick counts
  over the qualifying entries, divided by the sum of all tick counts of all buckets of all
  qualifying entries. Sums add from the left, starting at zero.
\<close>

definition qualifies :: "'b env \<Rightarrow> int \<Rightarrow> SSLogEntry \<Rightarrow> bool" where
  "qualifies e now entry =
     (now - 6 * 60 * 60 * 1000 \<le> ts entry \<and> isSSLogDataType entry
      \<and> PERF_DATA_MIN_TICKS e \<le> count_h (svMain (perf entry)))"

definition tickCount :: "SSLogEntry \<Rightarrow> nat \<Rightarrow> jsnum" where
  "tickCount entry i =
     js_mul (js_index (freqs (svMain (perf entry))) i)
       (Some (of_int (count_h (svMain (perf entry)))))"

definition js_sum :: "jsnum list \<Rightarrow> jsnum" where
  "js_sum xs = foldl js_add (Some 0) xs"

definition bucketTicks :: "SSLogEntry list \<Rightarrow> nat \<Rightarrow> jsnum" where
  "bucketTicks qs i = js_sum (map (\<lambda>q. tickCount q i) qs)"

definition totalTicks :: "'b env \<Rightarrow> SSLogEntry list \<Rightarrow> jsnum" where
  "totalTicks e qs =
     js_sum (concat (map (\<lambda>q. map (tickCount q) [0..<PERF_DATA_BUCKET_COUNT e]) qs))"

definition summary_spec :: "'b env \<Rightarrow> int \<Rightarrow> SSLogType \<Rightarrow> PerfSummary option" where
  "summary_spec e now entries =
     (let qs = filter (qualifies e now) entries
      in if length qs < 36 then None
         else Some
           \<lparr>snaps = length qs,
            freqs_s = map (\<lambda>i. js_div (bucketTicks qs i) (totalTicks e qs))
                        [0..<PERF_DATA_BUCKET_COUNT e],
            players_s = d3_median e (map (\<lambda>q. Some (of_int (players q))) qs),
            fxsMemory_s = d3_median e (map fxsMemory qs),
            nodeMemory_s = d3_median e (map nodeMemory qs)\<rparr>)"

text \<open>The accumulators of the scan after the qualifying entries \<open>qs\<close>, as the
  specification's sums.\<close>

definition scanned :: "'b env \<Rightarrow> SSLogEntry list \<Rightarrow> scanAcc" where
  "scanned e qs =
     \<lparr>cumBuckets = map (bucketTicks qs) [0..<PERF_DATA_BUCKET_COUNT e],
      cumTicks = totalTicks e qs,
      totalSnapshots = length qs,
      players_acc = map players qs,
      fxsMemory_acc = map fxsMemory qs,
      nodeMemory_acc = map nodeMemory qs\<rparr>"

text \<open>The same sums over the rationals, for entries whose frequency arrays are long
  enough.\<close>

definition ticks :: "SSLogEntry \<Rightarrow> nat \<Rightarrow> rat" where
  "ticks entry i = freqs (svMain (perf entry)) ! i * of_int (count_h (svMain (perf entry)))"

text \<open>An example environment for concrete runs: three buckets, at least 600 ticks, five
  minutes between saved points, an optimizer that keeps the newest 1000 entries, boundaries
  that are their own serialisation, and the median of the numbers present.\<close>

definition median_example :: "rat option list \<Rightarrow> rat option" where
  "median_example xs =
     (let vs = sort (map the (filter (\<lambda>x. x \<noteq> None) xs)); n = length vs
      in if n = 0 then None
         else if odd n then Some (vs ! (n div 2))
         else Some ((vs ! (n div 2 - 1) + vs ! (n div 2)) / 2))"

definition example_env :: "string env" where
  "example_env =
     \<lparr>PERF_DATA_BUCKET_COUNT = 3,
      PERF_DATA_MIN_TICKS = 600,
      PERF_DATA_INITIAL_RESOLUTION = 300000,
      optimizeStatsLog = (\<lambda>l. drop (length l - 1000) l),
      JSON_stringify = (\<lambda>b. b),
      d3_median = median_example\<rparr>"

text \<open>Example inputs: counters with \<open>n\<close> ticks on each thread, and a run of
  \<^verbatim>\<open>collectStats\<close> at time \<open>now\<close> whose fetches return the boundaries \<open>b\<close>, these counters
  and 512 MB, with eight players online.\<close>

definition example_counts :: "int \<Rightarrow> SSPerfCountsType" where
  "example_counts n =
     \<lparr>svMain = \<lparr>count = n, buckets = [n - 100, 60, 40]\<rparr>,
      svNetwork = \<lparr>count = n, buckets = [n - 10, 10, 0]\<rparr>,
      svSync = \<lparr>count = n, buckets = [n, 0, 0]\<rparr>\<rparr>"

definition example_input :: "int \<Rightarrow> string \<Rightarrow> int \<Rightarrow> string collectInput" where
  "example_input now b n =
     \<lparr>now_c = now,
      fxChild_null = False,
      playerlistManager_null = False,
      currentStatus = ''ONLINE'',
      debugExternalStatsSource = JOther False,
      fxServerHost = JString ''127.0.0.1:30120'',
      fetchRawPerfDataRes = Fulfilled (b, example_counts n),
      fetchFxsMemoryRes = Fulfilled (Some 512),
      onlineCount = 8,
      writeFile_ok = True\<rparr>"

text \<open>
  An example log for the summary, read at time 30000000: an entry older than six hours and
  an entry with 599 ticks, which do not qualify; 35 equal entries with 1000 ticks spread
  evenly over the first two buckets; a boot marker; and an entry with 3000 ticks in the
  first bucket and no memory value.
\<close>

definition example_entry :: "int \<Rightarrow> int \<Rightarrow> rat option \<Rightarrow> int \<Rightarrow> rat list \<Rightarrow> SSLogEntry" where
  "example_entry t p mem n fs =
     data t p mem (Some (of_int p * 10))
       \<lparr>svMain = \<lparr>count_h = n, freqs = fs\<rparr>,
        svNetwork = \<lparr>count_h = n, freqs = [1, 0, 0]\<rparr>,
        svSync = \<lparr>count_h = n, freqs = [1, 0, 0]\<rparr>\<rparr>"

definition example_log :: SSLogType where
  "example_log =
     [example_entry 1000 50 (Some 900) 5000 [0, 0, 1],
      example_entry 9000000 60 (Some 900) 599 [0, 0, 1]]
     @ replicate 35 (example_entry 10000000 8 (Some 512) 1000 [1 / 2, 1 / 2, 0])
     @ [svBoot 15000000 100,
        example_entry 20000000 20 None 3000 [1, 0, 0]]"

definition example_collector :: "SSLogType \<Rightarrow> string PerformanceCollector" where
  "example_collector entries = (new_PerformanceCollector None)\<lparr>statsLog := entries\<rparr>"

section \<open>Properties of the health monitor\<close>

lemma state_new: "state (status now (new_HealthEventMonitor delay fatal)) = PENDING"
  by (simp add: status_def new_HealthEventMonitor_def started_def)

lemma state_after_markHealthy:
  "state (status now (markHealthy t m)) =
     (if fatalLimit m \<le> (now - t) div 1000 then FATAL
      else if delayLimit m \<le> (now - t) div 1000 then DELAYED
      else HEALTHY)"
  by (simp add: status_def markHealthy_def restart_def started_def isOver_def elapsed_def)

lemma limits_markHealthy:
  "delayLimit (markHealthy t m) = delayLimit m \<and> fatalLimit (markHealthy t m) = fatalLimit m"
  by (simp add: markHealthy_def)

lemma limits_monitor_reset:
  "delayLimit (monitor_reset t m) = delayLimit m \<and> fatalLimit (monitor_reset t m) = fatalLimit m"
  by (simp add: monitor_reset_def)

text \<open>
  C1, as stated, at the thresholds \<open>delay = 0\<close> and \<open>fatal = 5\<close>: the pair satisfies
  \<open>delay < fatal\<close>, and a status read at the very instant of \<^verbatim>\<open>markHealthy()\<close> has elapsed
  time \<open>0 \<ge> delay\<close>, so the state is \<open>DELAYED\<close>, not \<open>HEALTHY\<close>.
\<close>

theorem C1_zero_delay_counterexample:
  "(0::int) < 5 \<and>
   state (status 1000 (markHealthy 1000 (new_HealthEventMonitor 0 5))) = DELAYED \<and>
   state (status 1000 (markHealthy 1000 (new_HealthEventMonitor 0 5))) \<noteq> HEALTHY"
  by (simp add: state_after_markHealthy new_HealthEventMonitor_def)

text \<open>
  C1, amended: for every threshold pair with \<open>0 < delay < fatal\<close>, a new monitor is
  \<open>PENDING\<close>; for a monitor \<open>m\<close> with these thresholds in any state whatsoever, a status read
  at the instant \<open>t\<close> of \<^verbatim>\<open>markHealthy()\<close> gives \<open>HEALTHY\<close>, and a read at a later time \<open>now\<close>,
  with \<open>s = floor ((now - t) / 1000)\<close> whole seconds elapsed since that last
  \<^verbatim>\<open>markHealthy()\<close>, gives \<open>HEALTHY\<close> while \<open>s < delay\<close>, \<open>DELAYED\<close> once \<open>delay \<le> s < fatal\<close>,
  and \<open>FATAL\<close> once \<open>fatal \<le> s\<close>. Since \<open>m\<close> is arbitrary (pending, delayed or fatal), a
  fresh \<^verbatim>\<open>markHealthy()\<close> at any point returns the state to \<open>HEALTHY\<close>.
\<close>

theorem C1_monitor_states:
  assumes "0 < delay" and "delay < fatal"
    and "delayLimit m = delay" and "fatalLimit m = fatal"
  shows "state (status now0 (new_HealthEventMonitor delay fatal)) = PENDING
       \<and> state (status t (markHealthy t m)) = HEALTHY
       \<and> ((now - t) div 1000 < delay \<longrightarrow> state (status now (markHealthy t m)) = HEALTHY)
       \<and> (delay \<le> (now - t) div 1000 \<and> (now - t) div 1000 < fatal
            \<longrightarrow> state (status now (markHealthy t m)) = DELAYED)
       \<and> (fatal \<le> (now - t) div 1000 \<longrightarrow> state (status now (markHealthy t m)) = FATAL)"
  using assms by (simp add: state_new state_after_markHealthy)

text \<open>C1 on a monitor with thresholds 5 and 10: pending when new, healthy at the instant
  of a second \<^verbatim>\<open>markHealthy()\<close>, delayed 7.999 seconds after it.\<close>

theorem C1_monitor_states_witness:
  "(0::int) < 5 \<and> (5::int) < 10
   \<and> state (status 0 (new_HealthEventMonitor 5 10)) = PENDING
   \<and> state (status 20000 (markHealthy 20000 (markHealthy 1000 (new_HealthEventMonitor 5 10)))) = HEALTHY
   \<and> state (status 27999 (markHealthy 20000 (markHealthy 1000 (new_HealthEventMonitor 5 10)))) = DELAYED"
  using C1_monitor_states [of 5 10 "markHealthy 1000 (new_HealthEventMonitor 5 10)" 0 20000 27999]
  by (simp add: limits_markHealthy new_HealthEventMonitor_def)

lemma restart_markHealthy:
  "tsStart (swLastHealthyEvent (markHealthy t m)) = Some t"
  by (simp add: markHealthy_def restart_def)

lemma firstHealthyEvent_markHealthy:
  "firstHealthyEvent (markHealthy t m) =
     (if firstHealthyEvent m = None then Some t else firstHealthyEvent m)"
  by (simp add: markHealthy_def split: option.splits)

lemma since_reset_snoc:
  "since_reset (ops @ [op]) = (if is_Reset op then [] else since_reset ops @ [op])"
  by (simp add: since_reset_def)

lemma first_mark_snoc:
  "first_mark (ops @ [op]) =
     (if is_Reset op then None
      else if first_mark ops = None then Some (clock op) else first_mark ops)"
  by (simp add: first_mark_def since_reset_snoc split: list.splits)

lemma firstHealthyEvent_monitor_run:
  "firstHealthyEvent (monitor_run ops (new_HealthEventMonitor delay fatal)) = first_mark ops"
proof (induction ops rule: rev_induct)
  case Nil
  show ?case
    by (simp add: monitor_run_def new_HealthEventMonitor_def first_mark_def since_reset_def)
next
  case (snoc op ops)
  then show ?case
    by (cases op)
       (simp_all add: monitor_run_def first_mark_snoc firstHealthyEvent_markHealthy
          monitor_reset_def)
qed

lemma secsSinceFirst_monitor_run:
  "secsSinceFirst (status now (monitor_run ops (new_HealthEventMonitor delay fatal))) =
     (case first_mark ops of
        None \<Rightarrow> Infinity
      | Some f \<Rightarrow> if f \<noteq> 0 then Secs ((now - f) div 1000) else Infinity)"
  by (simp add: status_def firstHealthyEvent_monitor_run)

text \<open>
  Away from a clock reading of \<open>0\<close> the monitor does what C9 says: \<^verbatim>\<open>secsSinceFirst\<close> is
  \<^verbatim>\<open>Infinity\<close> exactly when there was no \<^verbatim>\<open>markHealthy()\<close> since the construction or the last
  \<^verbatim>\<open>reset()\<close>, and otherwise the floored seconds since the first one.
\<close>

lemma secsSinceFirst_nonzero_clock:
  assumes "\<forall>op \<in> set ops. clock op \<noteq> 0"
  shows "(secsSinceFirst (status now (monitor_run ops (new_HealthEventMonitor delay fatal)))
            = Infinity) = (since_reset ops = [])"
    and "first_mark ops = Some f \<Longrightarrow>
         secsSinceFirst (status now (monitor_run ops (new_HealthEventMonitor delay fatal)))
           = Secs ((now - f) div 1000)"
proof -
  have in_ops: "set (since_reset ops) \<subseteq> set ops"
    using set_takeWhileD by (fastforce simp: since_reset_def)
  have nz: "first_mark ops = Some g \<Longrightarrow> g \<noteq> 0" for g
    using assms in_ops by (auto simp: first_mark_def split: list.splits)
  show "(secsSinceFirst (status now (monitor_run ops (new_HealthEventMonitor delay fatal)))
            = Infinity) = (since_reset ops = [])"
    using nz by (auto simp: secsSinceFirst_monitor_run first_mark_def split: option.splits list.splits)
  show "first_mark ops = Some f \<Longrightarrow>
         secsSinceFirst (status now (monitor_run ops (new_HealthEventMonitor delay fatal)))
           = Secs ((now - f) div 1000)"
    using nz by (simp add: secsSinceFirst_monitor_run)
qed

text \<open>
  A clock reading of exactly \<open>0\<close> is the one reading at which the truthiness test of
  \<^verbatim>\<open>status\<close> takes a recorded timestamp for none; \<^verbatim>\<open>Date.now()\<close> returns it only in the
  first millisecond of 1970, so the histories below leave it out.
\<close>

lemma secsSinceFirst_clock_zero:
  "firstHealthyEvent (markHealthy 0 (new_HealthEventMonitor 5 10)) = Some 0
   \<and> secsSinceFirst (status 7000 (markHealthy 0 (new_HealthEventMonitor 5 10))) = Infinity"
  by (simp add: status_def markHealthy_def new_HealthEventMonitor_def)

lemma first_mark_None: "(first_mark ops = None) = (since_reset ops = [])"
  by (simp add: first_mark_def split: list.splits)

text \<open>
  C9: let \<open>m\<close> be a monitor after any history \<open>ops\<close> of \<^verbatim>\<open>markHealthy()\<close> and \<^verbatim>\<open>reset()\<close>
  calls since its construction, the clock never reading \<open>0\<close>. A call of \<^verbatim>\<open>markHealthy()\<close> at
  time \<open>t\<close> restarts the stopwatch (it starts at \<open>t\<close>, and the seconds since the last healthy
  event count from \<open>t\<close>), and records \<open>t\<close> as the first healthy timestamp only if there was no
  \<^verbatim>\<open>markHealthy()\<close> since the construction or the last \<^verbatim>\<open>reset()\<close>; otherwise the recorded
  timestamp, that of the first such call, stays. \<^verbatim>\<open>status.secsSinceFirst\<close> is \<^verbatim>\<open>Infinity\<close>
  if and only if there was no \<^verbatim>\<open>markHealthy()\<close> since the construction or the last
  \<^verbatim>\<open>reset()\<close>; otherwise it is the floored number of seconds since the first such call.
\<close>

theorem C9_markHealthy_secsSinceFirst:
  assumes "\<forall>op \<in> set ops. clock op \<noteq> 0"
    and "m = monitor_run ops (new_HealthEventMonitor delay fatal)"
  shows "tsStart (swLastHealthyEvent (markHealthy t m)) = Some t
       \<and> secsSinceLast (status now (markHealthy t m)) = Secs ((now - t) div 1000)
       \<and> (since_reset ops = [] \<longrightarrow> firstHealthyEvent (markHealthy t m) = Some t)
       \<and> (since_reset ops \<noteq> [] \<longrightarrow>
            firstHealthyEvent (markHealthy t m) = firstHealthyEvent m
            \<and> firstHealthyEvent m = Some (clock (hd (since_reset ops))))
       \<and> ((secsSinceFirst (status now m) = Infinity) = (since_reset ops = []))
       \<and> (since_reset ops \<noteq> [] \<longrightarrow>
            secsSinceFirst (status now m)
              = Secs ((now - clock (hd (since_reset ops))) div 1000))"
proof -
  have first: "firstHealthyEvent m = first_mark ops"
    using assms(2) by (simp add: firstHealthyEvent_monitor_run)
  have mark: "since_reset ops \<noteq> [] \<Longrightarrow> first_mark ops = Some (clock (hd (since_reset ops)))"
    by (simp add: first_mark_def split: list.splits)
  have restarted: "tsStart (swLastHealthyEvent (markHealthy t m)) = Some t"
    by (rule restart_markHealthy)
  have last: "secsSinceLast (status now (markHealthy t m)) = Secs ((now - t) div 1000)"
    by (simp add: status_def elapsed_def restarted)
  have fresh: "since_reset ops = [] \<longrightarrow> firstHealthyEvent (markHealthy t m) = Some t"
    using first by (simp add: firstHealthyEvent_markHealthy first_mark_None)
  have kept: "since_reset ops \<noteq> [] \<longrightarrow>
            firstHealthyEvent (markHealthy t m) = firstHealthyEvent m
            \<and> firstHealthyEvent m = Some (clock (hd (since_reset ops)))"
    using first mark by (simp add: firstHealthyEvent_markHealthy)
  have inf: "(secsSinceFirst (status now m) = Infinity) = (since_reset ops = [])"
    using secsSinceFirst_nonzero_clock(1) [OF assms(1)] assms(2) by simp
  have secs: "since_reset ops \<noteq> [] \<longrightarrow>
            secsSinceFirst (status now m)
              = Secs ((now - clock (hd (since_reset ops))) div 1000)"
    using secsSinceFirst_nonzero_clock(2) [OF assms(1)] mark assms(2) by simp
  show ?thesis
    using restarted last fresh kept inf secs by blast
qed

text \<open>
  C9 on concrete histories of a monitor with thresholds 5 and 10: after calls at 1000 and
  3000 the first healthy timestamp is 1000, a third call at 6000 leaves it, and a status
  read at 8999 reports 7 seconds since the first and 2 since the last; after a reset at
  4000 the report is \<^verbatim>\<open>Infinity\<close>, and the next call records its own time.
\<close>

theorem C9_markHealthy_secsSinceFirst_witness:
  "firstHealthyEvent (markHealthy 6000
       (monitor_run [MarkHealthy 1000, MarkHealthy 3000] (new_HealthEventMonitor 5 10)))
     = Some 1000
   \<and> secsSinceFirst (status 8999
       (monitor_run [MarkHealthy 1000, MarkHealthy 3000] (new_HealthEventMonitor 5 10)))
     = Secs 7
   \<and> secsSinceLast (status 8999 (markHealthy 6000
       (monitor_run [MarkHealthy 1000, MarkHealthy 3000] (new_HealthEventMonitor 5 10))))
     = Secs 2
   \<and> secsSinceFirst (status 8999
       (monitor_run [MarkHealthy 1000, Reset 4000] (new_HealthEventMonitor 5 10)))
     = Infinity
   \<and> firstHealthyEvent (markHealthy 6000
       (monitor_run [MarkHealthy 1000, Reset 4000] (new_HealthEventMonitor 5 10)))
     = Some 6000"
proof -
  have nz1: "\<forall>op \<in> set [MarkHealthy 1000, MarkHealthy 3000]. clock op \<noteq> 0"
    by simp
  have nz2: "\<forall>op \<in> set [MarkHealthy 1000, Reset 4000]. clock op \<noteq> 0"
    by simp
  have s1: "since_reset [MarkHealthy 1000, MarkHealthy 3000]
              = [MarkHealthy 1000, MarkHealthy 3000]"
    by (simp add: since_reset_def)
  have s2: "since_reset [MarkHealthy 1000, Reset 4000] = []"
    by (simp add: since_reset_def)
  note a = C9_markHealthy_secsSinceFirst [OF nz1 refl, where delay = 5 and fatal = 10
      and t = 6000 and now = 8999]
  note b = C9_markHealthy_secsSinceFirst [OF nz2 refl, where delay = 5 and fatal = 10
      and t = 6000 and now = 8999]
  show ?thesis
    using a b by (simp add: s1 s2)
qed

section \<open>Properties of the performance collector\<close>

lemma run_snoc: "run e (ops @ [op]) st = exec e (run e ops st) op"
  by (simp add: run_def)







lemma statsLog_saveStatsHistory:
  "statsLog (saveStatsHistory e wr st) = optimizeStatsLog e (statsLog st)"
  by (simp add: saveStatsHistory_def Let_def)

lemma statsLog_logServerBoot:
  "statsLog (logServerBoot e now wr bt st) =
     optimizeStatsLog e ((if statsLog st \<noteq> [] \<and> is_svBoot (last (statsLog st)) then butlast (statsLog st) else statsLog st) @ [svBoot now bt])"
  by (simp add: logServerBoot_def Let_def statsLog_saveStatsHistory resetMemoryState_def resetPerfState_def)

lemma statsLog_logServerClose:
  "statsLog (logServerClose e now wr r st) =
     (if statsLog st \<noteq> [] \<and> is_svClose (last (statsLog st)) then statsLog st
      else if statsLog st \<noteq> [] \<and> is_svBoot (last (statsLog st)) then butlast (statsLog st)
      else optimizeStatsLog e (statsLog st @ [svClose now r]))"
  by (simp add: logServerClose_def Let_def statsLog_saveStatsHistory resetMemoryState_def resetPerfState_def)












lemmas ex_defs = example_env_def example_input_def example_counts_def new_PerformanceCollector_def
  run_def collectStats_def processSample_def checkBoundaries_def checkCounterReset_def
  perfHistToSave_def saveStatsHistory_def logServerBoot_def logServerClose_def
  resetPerfState_def resetMemoryState_def perfCountsToHist_def toHistogram_def diffPerfs_def
  delta_def STATS_DATA_FILE_VERSION_def Let_def



text \<open>
  The thinning optimizer stays within the bounds of the specification: it keeps the order
  and adds nothing, keeps every marker, never lengthens the log, and is idempotent.
\<close>

lemma thinningOptimizer_subseq: "subseq (thinningOptimizer l) l"
proof (cases "l = []")
  case True
  then show ?thesis by (simp add: thinningOptimizer_def)
next
  case False
  have "subseq (filter (\<lambda>x. \<not> isSSLogDataType x) (butlast l) @ [last l]) (butlast l @ [last l])"
    by (intro list_emb_append_mono) simp_all
  then show ?thesis using False by (simp add: thinningOptimizer_def)
qed

lemma thinningOptimizer_markers:
  "filter (\<lambda>x. \<not> isSSLogDataType x) (thinningOptimizer l)
     = filter (\<lambda>x. \<not> isSSLogDataType x) l"
proof (cases "l = []")
  case True
  then show ?thesis by (simp add: thinningOptimizer_def)
next
  case False
  have "filter (\<lambda>x. \<not> isSSLogDataType x) (butlast l @ [last l])
          = filter (\<lambda>x. \<not> isSSLogDataType x) (butlast l)
            @ filter (\<lambda>x. \<not> isSSLogDataType x) [last l]"
    by (rule filter_append)
  then show ?thesis using False by (simp add: thinningOptimizer_def)
qed

lemma thinningOptimizer_length: "length (thinningOptimizer l) \<le> length l"
  using thinningOptimizer_subseq [of l] by (rule list_emb_length)

lemma thinningOptimizer_idem: "thinningOptimizer (thinningOptimizer l) = thinningOptimizer l"
  by (simp add: thinningOptimizer_def)


lemma caches_logServerClose:
  "lastPerfCounts (logServerClose e now wr r st) = None
   \<and> lastPerfSaved (logServerClose e now wr r st) = None
   \<and> lastNodeMemory (logServerClose e now wr r st) = None
   \<and> lastFxsMemory (logServerClose e now wr r st) = None"
  by (simp add: logServerClose_def saveStatsHistory_def resetMemoryState_def resetPerfState_def
      Let_def)

lemma caches_logServerBoot:
  "lastPerfCounts (logServerBoot e now wr bt st) = None
   \<and> lastPerfSaved (logServerBoot e now wr bt st) = None
   \<and> lastNodeMemory (logServerBoot e now wr bt st) = None
   \<and> lastFxsMemory (logServerBoot e now wr bt st) = None"
  by (simp add: logServerBoot_def saveStatsHistory_def resetMemoryState_def resetPerfState_def
      Let_def)

text \<open>
  C3, as stated, on a new collector: \<^verbatim>\<open>logServerBoot(100)\<close> writes the file with the boot
  marker; \<^verbatim>\<open>logServerClose('crash')\<close> removes the marker from the log in memory and returns
  before the save. The resulting log is empty, the file still holds the boot marker: the
  resulting log is not persisted.
\<close>

theorem C3_not_persisted_counterexample:
  "statsLog (run example_env
       [LogServerBoot 1000 True 100, LogServerClose 2000 True ''crash'']
       (new_PerformanceCollector None)) = []
   \<and> statsDataFile (run example_env
       [LogServerBoot 1000 True 100, LogServerClose 2000 True ''crash'']
       (new_PerformanceCollector None))
     = Some \<lparr>version = 1, lastPerfBoundaries_f = None, log_f = [svBoot 1000 100]\<rparr>"
  by (simp add: ex_defs)

text \<open>
  C3, amended: \<^verbatim>\<open>logServerClose(reason)\<close> always resets the perf and memory caches; then, if
  the last entry of the log is a close marker it changes nothing further; if the last entry
  is a boot marker it removes that entry and appends nothing; otherwise (empty log, or a data
  entry last) it appends a new close marker, and the resulting log, after the optimizer ran
  on it, is written to the file when the write succeeds. In particular, on an empty log,
  \<^verbatim>\<open>logServerBoot\<close> immediately followed by \<^verbatim>\<open>logServerClose\<close> leaves the log empty, the
  optimizer keeping a log that consists of the one boot marker.
\<close>

theorem C3_logServerClose:
  "lastPerfCounts (logServerClose e now wr r st) = None
   \<and> lastPerfSaved (logServerClose e now wr r st) = None
   \<and> lastNodeMemory (logServerClose e now wr r st) = None
   \<and> lastFxsMemory (logServerClose e now wr r st) = None
   \<and> (statsLog st \<noteq> [] \<and> is_svClose (last (statsLog st)) \<longrightarrow>
        logServerClose e now wr r st = resetMemoryState (resetPerfState st))
   \<and> (statsLog st \<noteq> [] \<and> is_svBoot (last (statsLog st)) \<longrightarrow>
        statsLog (logServerClose e now wr r st) = butlast (statsLog st))
   \<and> (statsLog st = [] \<or> isSSLogDataType (last (statsLog st)) \<longrightarrow>
        statsLog (logServerClose e now wr r st)
          = optimizeStatsLog e (statsLog st @ [svClose now r])
        \<and> (wr \<longrightarrow> statsDataFile (logServerClose e now wr r st)
              = Some \<lparr>version = 1, lastPerfBoundaries_f = lastPerfBoundaries st,
                       log_f = optimizeStatsLog e (statsLog st @ [svClose now r])\<rparr>))
   \<and> (statsLog st = [] \<and> optimizeStatsLog e [svBoot now0 bt] = [svBoot now0 bt] \<longrightarrow>
        statsLog (logServerClose e now wr r (logServerBoot e now0 wr0 bt st)) = [])"
proof -
  have data: "isSSLogDataType x \<Longrightarrow> \<not> is_svClose x \<and> \<not> is_svBoot x" for x
    by (cases x) simp_all
  have close: "statsLog st \<noteq> [] \<and> is_svClose (last (statsLog st)) \<longrightarrow>
        logServerClose e now wr r st = resetMemoryState (resetPerfState st)"
    by (simp add: logServerClose_def Let_def resetMemoryState_def resetPerfState_def)
  have boot: "statsLog st \<noteq> [] \<and> is_svBoot (last (statsLog st)) \<longrightarrow>
        statsLog (logServerClose e now wr r st) = butlast (statsLog st)"
    by (cases "last (statsLog st)") (simp_all add: statsLog_logServerClose)
  have push: "statsLog st = [] \<or> isSSLogDataType (last (statsLog st)) \<longrightarrow>
        statsLog (logServerClose e now wr r st)
          = optimizeStatsLog e (statsLog st @ [svClose now r])
        \<and> (wr \<longrightarrow> statsDataFile (logServerClose e now wr r st)
              = Some \<lparr>version = 1, lastPerfBoundaries_f = lastPerfBoundaries st,
                       log_f = optimizeStatsLog e (statsLog st @ [svClose now r])\<rparr>)"
    using data [of "last (statsLog st)"]
    by (auto simp: logServerClose_def Let_def saveStatsHistory_def resetMemoryState_def
        resetPerfState_def STATS_DATA_FILE_VERSION_def)
  have scen: "statsLog st = [] \<and> optimizeStatsLog e [svBoot now0 bt] = [svBoot now0 bt] \<longrightarrow>
        statsLog (logServerClose e now wr r (logServerBoot e now0 wr0 bt st)) = []"
    by (simp add: statsLog_logServerClose statsLog_logServerBoot)
  show ?thesis
    using caches_logServerClose [of e now wr r st] close boot push scen by blast
qed


text \<open>C3 on concrete runs: a close after a collection appends the marker and clears the
  memory cache; a close right after a boot leaves the log empty.\<close>

theorem C3_logServerClose_witness:
  "statsLog (logServerClose example_env 400000 True ''quit''
      (run example_env
         [LogServerBoot 1000 True 100, CollectStats (example_input 60000 ''b1'' 1000)]
         (new_PerformanceCollector None)))
     = [svBoot 1000 100,
        data 60000 8 (Some 512) None
          \<lparr>svMain = \<lparr>count_h = 1000, freqs = [9 / 10, 3 / 50, 1 / 25]\<rparr>,
           svNetwork = \<lparr>count_h = 1000, freqs = [99 / 100, 1 / 100, 0]\<rparr>,
           svSync = \<lparr>count_h = 1000, freqs = [1, 0, 0]\<rparr>\<rparr>,
        svClose 400000 ''quit'']
   \<and> lastFxsMemory (logServerClose example_env 400000 True ''quit''
      (run example_env
         [LogServerBoot 1000 True 100, CollectStats (example_input 60000 ''b1'' 1000)]
         (new_PerformanceCollector None))) = None
   \<and> statsLog (logServerClose example_env 2000 True ''crash''
        (logServerBoot example_env 1000 True 100 (new_PerformanceCollector None))) = []"
  using C3_logServerClose [of example_env 400000 True "''quit''"
      "run example_env
         [LogServerBoot 1000 True 100, CollectStats (example_input 60000 ''b1'' 1000)]
         (new_PerformanceCollector None)" 1000 100 True]
    C3_logServerClose [of example_env 2000 True "''crash''" "new_PerformanceCollector None"
      1000 100 True]
  by (simp add: ex_defs)

lemma collectStats_skip:
  "\<not> reachesFetch inp \<Longrightarrow> snd (collectStats e inp st) = st"
  by (auto simp: collectStats_def reachesFetch_def selectedHost_def Let_def)

lemma collectStats_fetch:
  "reachesFetch inp \<Longrightarrow>
   collectStats e inp st =
     (let st1 = (case fetchFxsMemoryRes inp of
                   Fulfilled v \<Rightarrow> st\<lparr>lastFxsMemory := v\<rparr> | Rejected r \<Rightarrow> st)
      in case fetchRawPerfDataRes inp of
           Rejected r \<Rightarrow> (Some (FetchRejected r), st1)
         | Fulfilled (perfBoundaries, perfMetrics) \<Rightarrow>
             if notEnoughTicks e perfMetrics then (None, st1)
             else (None, processSample e inp perfBoundaries perfMetrics st1))"
  by (simp add: collectStats_def reachesFetch_def selectedHost_def notEnoughTicks_def Let_def
      split: settled.splits prod.splits)

text \<open>
  C8, as stated, on a new collector, whose \<^verbatim>\<open>lastFxsMemory\<close> is unset: a run whose counter
  fetch is rejected while the memory fetch returns 512, and a run whose counters have 599
  ticks, below the 600 required. Both abort early, and both leave \<^verbatim>\<open>lastFxsMemory = 512\<close>.
\<close>

theorem C8_memory_changed_counterexample:
  "lastFxsMemory (new_PerformanceCollector None :: string PerformanceCollector) = None
   \<and> collectStats example_env
        ((example_input 60000 ''b1'' 1000)\<lparr>fetchRawPerfDataRes := Rejected ''timeout''\<rparr>)
        (new_PerformanceCollector None)
      = (Some (FetchRejected ''timeout''),
         (new_PerformanceCollector None)\<lparr>lastFxsMemory := Some 512\<rparr>)
   \<and> collectStats example_env (example_input 60000 ''b1'' 599) (new_PerformanceCollector None)
      = (None, (new_PerformanceCollector None)\<lparr>lastFxsMemory := Some 512\<rparr>)"
  by (simp add: ex_defs)

text \<open>
  C8, amended: a \<^verbatim>\<open>collectStats\<close> cycle that aborts early, because the counter fetch failed
  (the error is propagated to the caller) or because one of the three tick counts is below
  the minimum, leaves the log, the last counters, the last saved baseline, the boundaries,
  \<^verbatim>\<open>lastNodeMemory\<close> and the file exactly as they were; \<^verbatim>\<open>lastFxsMemory\<close> is replaced by the
  value of the memory fetch of the same cycle when that fetch succeeded, and is left as it
  was when that fetch failed.
\<close>

theorem C8_abort_keeps_state:
  assumes "reachesFetch inp"
    and "(\<exists>r. fetchRawPerfDataRes inp = Rejected r)
         \<or> (\<exists>pb pm. fetchRawPerfDataRes inp = Fulfilled (pb, pm) \<and> notEnoughTicks e pm)"
  shows "snd (collectStats e inp st)
           = (case fetchFxsMemoryRes inp of
                Fulfilled v \<Rightarrow> st\<lparr>lastFxsMemory := v\<rparr>
              | Rejected r \<Rightarrow> st)
         \<and> fst (collectStats e inp st)
           = (case fetchRawPerfDataRes inp of
                Rejected r \<Rightarrow> Some (FetchRejected r)
              | Fulfilled x \<Rightarrow> None)"
  using assms(2) by (auto simp: collectStats_fetch [OF assms(1)] Let_def)

text \<open>C8 on concrete runs: both fetches fail and nothing changes; too few ticks, and only
  the memory value changes.\<close>

theorem C8_abort_keeps_state_witness:
  "snd (collectStats example_env
        ((example_input 60000 ''b1'' 1000)
           \<lparr>fetchRawPerfDataRes := Rejected ''timeout'',
            fetchFxsMemoryRes := Rejected ''no memory''\<rparr>)
        (new_PerformanceCollector None)) = new_PerformanceCollector None
   \<and> snd (collectStats example_env (example_input 60000 ''b1'' 599)
        (new_PerformanceCollector None))
      = (new_PerformanceCollector None)\<lparr>lastFxsMemory := Some 512\<rparr>"
  using C8_abort_keeps_state [of "(example_input 60000 ''b1'' 1000)
           \<lparr>fetchRawPerfDataRes := Rejected ''timeout'',
            fetchFxsMemoryRes := Rejected ''no memory''\<rparr>" example_env
           "new_PerformanceCollector None"]
    C8_abort_keeps_state [of "example_input 60000 ''b1'' 599" example_env
           "new_PerformanceCollector None"]
  by (simp add: example_input_def example_counts_def example_env_def reachesFetch_def
      selectedHost_def notEnoughTicks_def)

lemma checkBoundaries_first:
  "lastPerfCounts st = None \<or> lastPerfSaved st = None \<or> lastPerfBoundaries st = None \<Longrightarrow>
   checkBoundaries e pb st
     = st\<lparr>lastPerfBoundaries := Some pb, lastPerfCounts := None, lastPerfSaved := None\<rparr>"
  by (auto simp: checkBoundaries_def resetPerfState_def split: option.splits)

lemma checkBoundaries_changed:
  "lastPerfCounts st \<noteq> None \<Longrightarrow> lastPerfSaved st \<noteq> None \<Longrightarrow> lastPerfBoundaries st = Some b \<Longrightarrow>
   JSON_stringify e pb \<noteq> JSON_stringify e b \<Longrightarrow>
   checkBoundaries e pb st
     = st\<lparr>statsLog := [], lastPerfBoundaries := Some pb, lastPerfCounts := None,
          lastPerfSaved := None\<rparr>"
  by (auto simp: checkBoundaries_def resetPerfState_def split: option.splits)

lemma checkBoundaries_same:
  "lastPerfCounts st \<noteq> None \<Longrightarrow> lastPerfSaved st \<noteq> None \<Longrightarrow> lastPerfBoundaries st = Some b \<Longrightarrow>
   JSON_stringify e pb = JSON_stringify e b \<Longrightarrow>
   checkBoundaries e pb st = st"
  by (auto simp: checkBoundaries_def resetPerfState_def split: option.splits)

lemma processSample_after_reset:
  assumes "lastPerfCounts (checkBoundaries e pb st) = None"
    and "lastPerfSaved (checkBoundaries e pb st) = None"
  shows "statsLog (processSample e inp pb pm st)
     = optimizeStatsLog e (statsLog (checkBoundaries e pb st) @
         [data (now_c inp) (onlineCount inp) (lastFxsMemory (checkBoundaries e pb st))
            (map_option used (lastNodeMemory (checkBoundaries e pb st)))
            (perfCountsToHist pm)])"
  using assms
  by (simp add: processSample_def Let_def checkCounterReset_def perfHistToSave_def
      diffPerfs_def statsLog_saveStatsHistory)

text \<open>
  The three cases of the boundary check. With one of the last counters, the last saved
  baseline and the last known boundaries unset, the fetched boundaries are adopted, the
  counters reset and the log kept, without any comparison of the boundaries: the fresh
  sample is appended to the kept log. With all three set and a different serialisation of
  the fetched boundaries, the log is discarded, the boundaries adopted and the counters
  reset: the log then holds the fresh sample alone. With all three set and the same
  serialisation nothing changes.
\<close>

lemma checkBoundaries_cases:
  "(lastPerfCounts st = None \<or> lastPerfSaved st = None \<or> lastPerfBoundaries st = None \<longrightarrow>
      checkBoundaries e pb st
        = st\<lparr>lastPerfBoundaries := Some pb, lastPerfCounts := None, lastPerfSaved := None\<rparr>
      \<and> statsLog (processSample e inp pb pm st)
        = optimizeStatsLog e (statsLog st @
            [data (now_c inp) (onlineCount inp) (lastFxsMemory st)
               (map_option used (lastNodeMemory st)) (perfCountsToHist pm)]))
   \<and> (\<forall>b. lastPerfCounts st \<noteq> None \<and> lastPerfSaved st \<noteq> None
          \<and> lastPerfBoundaries st = Some b
          \<and> JSON_stringify e pb \<noteq> JSON_stringify e b \<longrightarrow>
      checkBoundaries e pb st
        = st\<lparr>statsLog := [], lastPerfBoundaries := Some pb, lastPerfCounts := None,
             lastPerfSaved := None\<rparr>
      \<and> statsLog (processSample e inp pb pm st)
        = optimizeStatsLog e
            [data (now_c inp) (onlineCount inp) (lastFxsMemory st)
               (map_option used (lastNodeMemory st)) (perfCountsToHist pm)])
   \<and> (\<forall>b. lastPerfCounts st \<noteq> None \<and> lastPerfSaved st \<noteq> None
          \<and> lastPerfBoundaries st = Some b
          \<and> JSON_stringify e pb = JSON_stringify e b \<longrightarrow>
      checkBoundaries e pb st = st)"
proof -
  have first: "lastPerfCounts st = None \<or> lastPerfSaved st = None \<or> lastPerfBoundaries st = None \<longrightarrow>
      checkBoundaries e pb st
        = st\<lparr>lastPerfBoundaries := Some pb, lastPerfCounts := None, lastPerfSaved := None\<rparr>
      \<and> statsLog (processSample e inp pb pm st)
        = optimizeStatsLog e (statsLog st @
            [data (now_c inp) (onlineCount inp) (lastFxsMemory st)
               (map_option used (lastNodeMemory st)) (perfCountsToHist pm)])"
  proof
    assume a: "lastPerfCounts st = None \<or> lastPerfSaved st = None \<or> lastPerfBoundaries st = None"
    note cb = checkBoundaries_first [OF a, of e pb]
    show "checkBoundaries e pb st
        = st\<lparr>lastPerfBoundaries := Some pb, lastPerfCounts := None, lastPerfSaved := None\<rparr>
      \<and> statsLog (processSample e inp pb pm st)
        = optimizeStatsLog e (statsLog st @
            [data (now_c inp) (onlineCount inp) (lastFxsMemory st)
               (map_option used (lastNodeMemory st)) (perfCountsToHist pm)])"
      using cb processSample_after_reset [of e pb st inp pm] by simp
  qed
  have changed: "lastPerfCounts st \<noteq> None \<and> lastPerfSaved st \<noteq> None
          \<and> lastPerfBoundaries st = Some b
          \<and> JSON_stringify e pb \<noteq> JSON_stringify e b \<longrightarrow>
      checkBoundaries e pb st
        = st\<lparr>statsLog := [], lastPerfBoundaries := Some pb, lastPerfCounts := None,
             lastPerfSaved := None\<rparr>
      \<and> statsLog (processSample e inp pb pm st)
        = optimizeStatsLog e
            [data (now_c inp) (onlineCount inp) (lastFxsMemory st)
               (map_option used (lastNodeMemory st)) (perfCountsToHist pm)]" for b
  proof
    assume a: "lastPerfCounts st \<noteq> None \<and> lastPerfSaved st \<noteq> None
          \<and> lastPerfBoundaries st = Some b
          \<and> JSON_stringify e pb \<noteq> JSON_stringify e b"
    then have cb: "checkBoundaries e pb st
        = st\<lparr>statsLog := [], lastPerfBoundaries := Some pb, lastPerfCounts := None,
             lastPerfSaved := None\<rparr>"
      using a checkBoundaries_changed [of st b e pb] by simp
    show "checkBoundaries e pb st
        = st\<lparr>statsLog := [], lastPerfBoundaries := Some pb, lastPerfCounts := None,
             lastPerfSaved := None\<rparr>
      \<and> statsLog (processSample e inp pb pm st)
        = optimizeStatsLog e
            [data (now_c inp) (onlineCount inp) (lastFxsMemory st)
               (map_option used (lastNodeMemory st)) (perfCountsToHist pm)]"
      using cb processSample_after_reset [of e pb st inp pm] by simp
  qed
  have same: "lastPerfCounts st \<noteq> None \<and> lastPerfSaved st \<noteq> None
          \<and> lastPerfBoundaries st = Some b
          \<and> JSON_stringify e pb = JSON_stringify e b \<longrightarrow>
      checkBoundaries e pb st = st" for b
    using checkBoundaries_same [of st b e pb] by simp
  show ?thesis
    by (intro conjI allI) (rule first, rule changed, rule same)
qed


text \<open>
  C5 where the boundaries change across a boot or a restart. A collector saved a sample
  under the boundaries \<open>b1\<close> and then saw a boot; or it loaded a file written under \<open>b1\<close>.
  The last known boundaries are \<open>b1\<close>, the next collection fetches \<open>b2\<close>, whose serialisation
  differs. The boot and the load have unset the counters, so the check takes the branch of
  a first collection and never compares the boundaries: \<open>b2\<close> is adopted and the log is not
  discarded. The sample taken under \<open>b1\<close> stays in the log, next to the one taken under \<open>b2\<close>.
\<close>

theorem C5_changed_boundaries_log_kept:
  "lastPerfBoundaries (run example_env
       [CollectStats (example_input 60000 ''b1'' 1000), LogServerBoot 100000 True 100]
       (new_PerformanceCollector None)) = Some ''b1''
   \<and> JSON_stringify example_env ''b2'' \<noteq> JSON_stringify example_env ''b1''
   \<and> statsLog (run example_env
       [CollectStats (example_input 60000 ''b1'' 1000), LogServerBoot 100000 True 100,
        CollectStats (example_input 160000 ''b2'' 2000)]
       (new_PerformanceCollector None))
     = [data 60000 8 (Some 512) None
          \<lparr>svMain = \<lparr>count_h = 1000, freqs = [9 / 10, 3 / 50, 1 / 25]\<rparr>,
           svNetwork = \<lparr>count_h = 1000, freqs = [99 / 100, 1 / 100, 0]\<rparr>,
           svSync = \<lparr>count_h = 1000, freqs = [1, 0, 0]\<rparr>\<rparr>,
        svBoot 100000 100,
        data 160000 8 (Some 512) None
          \<lparr>svMain = \<lparr>count_h = 2000, freqs = [19 / 20, 3 / 100, 1 / 50]\<rparr>,
           svNetwork = \<lparr>count_h = 2000, freqs = [199 / 200, 1 / 200, 0]\<rparr>,
           svSync = \<lparr>count_h = 2000, freqs = [1, 0, 0]\<rparr>\<rparr>]
   \<and> lastPerfBoundaries (run example_env
       [CollectStats (example_input 60000 ''b1'' 1000), LogServerBoot 100000 True 100,
        CollectStats (example_input 160000 ''b2'' 2000)]
       (new_PerformanceCollector None)) = Some ''b2''
   \<and> lastPerfBoundaries (loadStatsHistory example_env (new_PerformanceCollector
        (Some \<lparr>version = 1, lastPerfBoundaries_f = Some ''b1'',
                log_f = [example_entry 1000 8 (Some 512) 1000 [1, 0, 0]]\<rparr>))) = Some ''b1''
   \<and> statsLog (run example_env [CollectStats (example_input 60000 ''b2'' 2000)]
        (loadStatsHistory example_env (new_PerformanceCollector
          (Some \<lparr>version = 1, lastPerfBoundaries_f = Some ''b1'',
                  log_f = [example_entry 1000 8 (Some 512) 1000 [1, 0, 0]]\<rparr>))))
     = [example_entry 1000 8 (Some 512) 1000 [1, 0, 0],
        data 60000 8 (Some 512) None
          \<lparr>svMain = \<lparr>count_h = 2000, freqs = [19 / 20, 3 / 100, 1 / 50]\<rparr>,
           svNetwork = \<lparr>count_h = 2000, freqs = [199 / 200, 1 / 200, 0]\<rparr>,
           svSync = \<lparr>count_h = 2000, freqs = [1, 0, 0]\<rparr>\<rparr>]"
  by (simp add: ex_defs loadStatsHistory_def)

text \<open>The boundary check on concrete runs: changed boundaries while the counters are
  cached, a first sample, and unchanged boundaries.\<close>

lemma checkBoundaries_examples:
  "statsLog (processSample example_env (example_input 120000 ''b2'' 2000) ''b2''
       (example_counts 2000)
       (run example_env [CollectStats (example_input 60000 ''b1'' 1000)]
          (new_PerformanceCollector None)))
     = [data 120000 8 (Some 512) None
          \<lparr>svMain = \<lparr>count_h = 2000, freqs = [19 / 20, 3 / 100, 1 / 50]\<rparr>,
           svNetwork = \<lparr>count_h = 2000, freqs = [199 / 200, 1 / 200, 0]\<rparr>,
           svSync = \<lparr>count_h = 2000, freqs = [1, 0, 0]\<rparr>\<rparr>]
   \<and> statsLog (processSample example_env (example_input 60000 ''b1'' 1000) ''b1''
       (example_counts 1000) (new_PerformanceCollector None))
     = [data 60000 8 None None
          \<lparr>svMain = \<lparr>count_h = 1000, freqs = [9 / 10, 3 / 50, 1 / 25]\<rparr>,
           svNetwork = \<lparr>count_h = 1000, freqs = [99 / 100, 1 / 100, 0]\<rparr>,
           svSync = \<lparr>count_h = 1000, freqs = [1, 0, 0]\<rparr>\<rparr>]
   \<and> checkBoundaries example_env ''b1''
       (run example_env [CollectStats (example_input 60000 ''b1'' 1000)]
          (new_PerformanceCollector None))
     = run example_env [CollectStats (example_input 60000 ''b1'' 1000)]
          (new_PerformanceCollector None)"
  using checkBoundaries_cases [of "run example_env [CollectStats (example_input 60000 ''b1'' 1000)]
          (new_PerformanceCollector None)" example_env "''b2''"
          "example_input 120000 ''b2'' 2000" "example_counts 2000"]
    checkBoundaries_cases [of "new_PerformanceCollector None" example_env "''b1''"
          "example_input 60000 ''b1'' 1000" "example_counts 1000"]
    checkBoundaries_cases [of "run example_env [CollectStats (example_input 60000 ''b1'' 1000)]
          (new_PerformanceCollector None)" example_env "''b1''"
          "example_input 120000 ''b1'' 2000" "example_counts 2000"]
  by (simp add: ex_defs)


lemma gate_saved_unchanged:
  assumes "lastPerfSaved (checkCounterReset pm (checkBoundaries e pb st)) = Some s"
  shows "checkCounterReset pm (checkBoundaries e pb st) = st"
proof -
  have cb: "checkBoundaries e pb st = st"
    using assms
    by (auto simp: checkBoundaries_def checkCounterReset_def resetPerfState_def
        split: option.splits if_splits)
  show ?thesis
    using assms unfolding cb
    by (auto simp: checkCounterReset_def resetPerfState_def split: option.splits if_splits)
qed

lemma processSample_saved:
  assumes "perfHistToSave e (now_c inp) pm
             (perfCountsToHist (diffPerfs pm
                (lastPerfCounts (checkCounterReset pm (checkBoundaries e pb st)))))
             (lastPerfSaved (checkCounterReset pm (checkBoundaries e pb st))) = Some h"
  shows "processSample e inp pb pm st =
     saveStatsHistory e (writeFile_ok inp)
       ((checkCounterReset pm (checkBoundaries e pb st))
          \<lparr>lastPerfCounts := Some pm,
           lastPerfSaved := Some \<lparr>ts_saved = now_c inp, counts = pm\<rparr>,
           statsLog := statsLog (checkCounterReset pm (checkBoundaries e pb st)) @
             [data (now_c inp) (onlineCount inp)
                (lastFxsMemory (checkCounterReset pm (checkBoundaries e pb st)))
                (map_option used (lastNodeMemory (checkCounterReset pm (checkBoundaries e pb st))))
                h]\<rparr>)"
  using assms by (simp add: processSample_def Let_def)

lemma processSample_not_saved:
  assumes "perfHistToSave e (now_c inp) pm
             (perfCountsToHist (diffPerfs pm
                (lastPerfCounts (checkCounterReset pm (checkBoundaries e pb st)))))
             (lastPerfSaved (checkCounterReset pm (checkBoundaries e pb st))) = None"
  shows "processSample e inp pb pm st =
     (checkCounterReset pm (checkBoundaries e pb st))\<lparr>lastPerfCounts := Some pm\<rparr>"
  using assms by (simp add: processSample_def Let_def)

lemma saveStatsHistory_fields:
  "lastPerfSaved (saveStatsHistory e wr st) = lastPerfSaved st
   \<and> lastPerfCounts (saveStatsHistory e wr st) = lastPerfCounts st
   \<and> lastPerfBoundaries (saveStatsHistory e wr st) = lastPerfBoundaries st
   \<and> lastFxsMemory (saveStatsHistory e wr st) = lastFxsMemory st
   \<and> lastNodeMemory (saveStatsHistory e wr st) = lastNodeMemory st
   \<and> (wr \<longrightarrow> statsDataFile (saveStatsHistory e wr st)
         = Some \<lparr>version = 1, lastPerfBoundaries_f = lastPerfBoundaries st,
                  log_f = optimizeStatsLog e (statsLog st)\<rparr>)
   \<and> (\<not> wr \<longrightarrow> statsDataFile (saveStatsHistory e wr st) = statsDataFile st)"
  by (simp add: saveStatsHistory_def Let_def STATS_DATA_FILE_VERSION_def)

text \<open>
  C6: in \<^verbatim>\<open>collectStats\<close>, past the tick check, let \<open>st2\<close> be the state at the save gate, that
  is after the boundary check and the counter check of the same cycle. A data point is
  appended, \<^verbatim>\<open>lastPerfSaved\<close> set to the fresh counters, and the file written with the new log
  (when the write succeeds) exactly in two cases: \<^verbatim>\<open>lastPerfSaved\<close> is unset at the gate, and
  then the saved histogram is the delta to the last full sample; or it is set and at least
  \<^verbatim>\<open>PERF_DATA_INITIAL_RESOLUTION\<close> has elapsed since its timestamp, and then the saved histogram
  is the delta between the fresh counters and the last saved counters. In the remaining case
  no data point is appended, \<^verbatim>\<open>lastPerfSaved\<close>, the log and the file are unchanged, and only
  the last full sample becomes the fresh counters.
\<close>

theorem C6_save_gate:
  assumes "st2 = checkCounterReset pm (checkBoundaries e pb st)"
    and "st' = processSample e inp pb pm st"
    and "now = now_c inp"
  shows
   "(lastPerfSaved st2 = None \<longrightarrow>
       statsLog st' = optimizeStatsLog e (statsLog st2 @
          [data now (onlineCount inp) (lastFxsMemory st2) (map_option used (lastNodeMemory st2))
             (perfCountsToHist (diffPerfs pm (lastPerfCounts st2)))])
       \<and> lastPerfSaved st' = Some \<lparr>ts_saved = now, counts = pm\<rparr>
       \<and> lastPerfCounts st' = Some pm
       \<and> (writeFile_ok inp \<longrightarrow> statsDataFile st'
             = Some \<lparr>version = 1, lastPerfBoundaries_f = lastPerfBoundaries st2,
                      log_f = statsLog st'\<rparr>))
    \<and> (\<forall>s. lastPerfSaved st2 = Some s \<and> PERF_DATA_INITIAL_RESOLUTION e \<le> now - ts_saved s \<longrightarrow>
       lastPerfSaved st = Some s
       \<and> statsLog st' = optimizeStatsLog e (statsLog st @
          [data now (onlineCount inp) (lastFxsMemory st) (map_option used (lastNodeMemory st))
             (perfCountsToHist (diffPerfs pm (Some (counts s))))])
       \<and> lastPerfSaved st' = Some \<lparr>ts_saved = now, counts = pm\<rparr>
       \<and> lastPerfCounts st' = Some pm
       \<and> (writeFile_ok inp \<longrightarrow> statsDataFile st'
             = Some \<lparr>version = 1, lastPerfBoundaries_f = lastPerfBoundaries st,
                      log_f = statsLog st'\<rparr>))
    \<and> (\<forall>s. lastPerfSaved st2 = Some s \<and> now - ts_saved s < PERF_DATA_INITIAL_RESOLUTION e \<longrightarrow>
       lastPerfSaved st = Some s \<and> st' = st\<lparr>lastPerfCounts := Some pm\<rparr>)"
proof (intro conjI allI impI)
  assume none: "lastPerfSaved st2 = None"
  have h: "perfHistToSave e (now_c inp) pm
             (perfCountsToHist (diffPerfs pm (lastPerfCounts st2))) (lastPerfSaved st2)
           = Some (perfCountsToHist (diffPerfs pm (lastPerfCounts st2)))"
    using none by (simp add: perfHistToSave_def)
  note ps = processSample_saved [OF h [unfolded assms(1)], folded assms(1) assms(2)]
  show "statsLog st' = optimizeStatsLog e (statsLog st2 @
          [data now (onlineCount inp) (lastFxsMemory st2) (map_option used (lastNodeMemory st2))
             (perfCountsToHist (diffPerfs pm (lastPerfCounts st2)))])"
    by (simp add: ps statsLog_saveStatsHistory assms(3))
  show "lastPerfSaved st' = Some \<lparr>ts_saved = now, counts = pm\<rparr>"
    by (simp add: ps saveStatsHistory_fields assms(3))
  show "lastPerfCounts st' = Some pm"
    by (simp add: ps saveStatsHistory_fields)
  show "statsDataFile st'
          = Some \<lparr>version = 1, lastPerfBoundaries_f = lastPerfBoundaries st2,
                   log_f = statsLog st'\<rparr>" if "writeFile_ok inp"
    using that by (simp add: ps saveStatsHistory_fields statsLog_saveStatsHistory)
next
  fix s
  assume a: "lastPerfSaved st2 = Some s \<and> PERF_DATA_INITIAL_RESOLUTION e \<le> now - ts_saved s"
  have st2: "st2 = st"
    using a gate_saved_unchanged [of pm e pb st s] assms(1) by simp
  have h: "perfHistToSave e (now_c inp) pm
             (perfCountsToHist (diffPerfs pm (lastPerfCounts st2))) (lastPerfSaved st2)
           = Some (perfCountsToHist (diffPerfs pm (Some (counts s))))"
    using a by (simp add: perfHistToSave_def assms(3))
  note ps = processSample_saved [OF h [unfolded assms(1)], folded assms(1) assms(2)]
  show "lastPerfSaved st = Some s" using a st2 by simp
  show "statsLog st' = optimizeStatsLog e (statsLog st @
          [data now (onlineCount inp) (lastFxsMemory st) (map_option used (lastNodeMemory st))
             (perfCountsToHist (diffPerfs pm (Some (counts s))))])"
    by (simp add: ps statsLog_saveStatsHistory assms(3) st2)
  show "lastPerfSaved st' = Some \<lparr>ts_saved = now, counts = pm\<rparr>"
    by (simp add: ps saveStatsHistory_fields assms(3))
  show "lastPerfCounts st' = Some pm"
    by (simp add: ps saveStatsHistory_fields)
  show "statsDataFile st'
          = Some \<lparr>version = 1, lastPerfBoundaries_f = lastPerfBoundaries st,
                   log_f = statsLog st'\<rparr>" if "writeFile_ok inp"
    using that by (simp add: ps saveStatsHistory_fields statsLog_saveStatsHistory st2)
next
  fix s
  assume a: "lastPerfSaved st2 = Some s \<and> now - ts_saved s < PERF_DATA_INITIAL_RESOLUTION e"
  have st2: "st2 = st"
    using a gate_saved_unchanged [of pm e pb st s] assms(1) by simp
  have h: "perfHistToSave e (now_c inp) pm
             (perfCountsToHist (diffPerfs pm (lastPerfCounts st2))) (lastPerfSaved st2)
           = None"
    using a by (simp add: perfHistToSave_def assms(3))
  note ps = processSample_not_saved [OF h [unfolded assms(1)], folded assms(1) assms(2)]
  show "lastPerfSaved st = Some s" using a st2 by simp
  show "st' = st\<lparr>lastPerfCounts := Some pm\<rparr>"
    by (simp add: ps st2)
qed


text \<open>
  C6 on concrete runs with a resolution of 300 s: the first sample is saved; a sample 60 s
  later is not, it only replaces the last full sample (2000 ticks); a sample 300 s after the
  saved one is saved with 5000 - 1000 = 4000 ticks, the delta to the saved counters, not
  the 3000 to the last full sample.
\<close>

theorem C6_save_gate_witness:
  "statsLog (processSample example_env (example_input 60000 ''b1'' 1000) ''b1''
       (example_counts 1000) (new_PerformanceCollector None))
     = [data 60000 8 None None
          \<lparr>svMain = \<lparr>count_h = 1000, freqs = [9 / 10, 3 / 50, 1 / 25]\<rparr>,
           svNetwork = \<lparr>count_h = 1000, freqs = [99 / 100, 1 / 100, 0]\<rparr>,
           svSync = \<lparr>count_h = 1000, freqs = [1, 0, 0]\<rparr>\<rparr>]
   \<and> processSample example_env (example_input 120000 ''b1'' 2000) ''b1'' (example_counts 2000)
       (run example_env [CollectStats (example_input 60000 ''b1'' 1000)]
          (new_PerformanceCollector None))
     = (run example_env [CollectStats (example_input 60000 ''b1'' 1000)]
          (new_PerformanceCollector None))\<lparr>lastPerfCounts := Some (example_counts 2000)\<rparr>
   \<and> statsLog (processSample example_env (example_input 360000 ''b1'' 5000) ''b1''
       (example_counts 5000)
       (run example_env
          [CollectStats (example_input 60000 ''b1'' 1000),
           CollectStats (example_input 120000 ''b1'' 2000)]
          (new_PerformanceCollector None)))
     = [data 60000 8 (Some 512) None
          \<lparr>svMain = \<lparr>count_h = 1000, freqs = [9 / 10, 3 / 50, 1 / 25]\<rparr>,
           svNetwork = \<lparr>count_h = 1000, freqs = [99 / 100, 1 / 100, 0]\<rparr>,
           svSync = \<lparr>count_h = 1000, freqs = [1, 0, 0]\<rparr>\<rparr>,
        data 360000 8 (Some 512) None
          \<lparr>svMain = \<lparr>count_h = 4000, freqs = [1, 0, 0]\<rparr>,
           svNetwork = \<lparr>count_h = 4000, freqs = [1, 0, 0]\<rparr>,
           svSync = \<lparr>count_h = 4000, freqs = [1, 0, 0]\<rparr>\<rparr>]"
proof -
  let ?new = "new_PerformanceCollector None :: string PerformanceCollector"
  let ?st1 = "run example_env [CollectStats (example_input 60000 ''b1'' 1000)] ?new"
  let ?st2 = "run example_env
          [CollectStats (example_input 60000 ''b1'' 1000),
           CollectStats (example_input 120000 ''b1'' 2000)] ?new"
  have g0: "lastPerfSaved (checkCounterReset (example_counts 1000)
              (checkBoundaries example_env ''b1'' ?new)) = None"
    by (simp add: ex_defs)
  have g1: "lastPerfSaved (checkCounterReset (example_counts 2000)
              (checkBoundaries example_env ''b1'' ?st1))
            = Some \<lparr>ts_saved = 60000, counts = example_counts 1000\<rparr>
          \<and> now_c (example_input 120000 ''b1'' 2000)
                - ts_saved \<lparr>ts_saved = 60000, counts = example_counts 1000\<rparr>
              < PERF_DATA_INITIAL_RESOLUTION example_env"
    by (simp add: ex_defs)
  have g2: "lastPerfSaved (checkCounterReset (example_counts 5000)
              (checkBoundaries example_env ''b1'' ?st2))
            = Some \<lparr>ts_saved = 60000, counts = example_counts 1000\<rparr>
          \<and> PERF_DATA_INITIAL_RESOLUTION example_env
              \<le> now_c (example_input 360000 ''b1'' 5000)
                - ts_saved \<lparr>ts_saved = 60000, counts = example_counts 1000\<rparr>"
    by (simp add: ex_defs)
  have p0: "statsLog (processSample example_env (example_input 60000 ''b1'' 1000) ''b1''
              (example_counts 1000) ?new)
      = optimizeStatsLog example_env
          (statsLog (checkCounterReset (example_counts 1000)
              (checkBoundaries example_env ''b1'' ?new)) @
           [data (now_c (example_input 60000 ''b1'' 1000))
              (onlineCount (example_input 60000 ''b1'' 1000))
              (lastFxsMemory (checkCounterReset (example_counts 1000)
                 (checkBoundaries example_env ''b1'' ?new)))
              (map_option used (lastNodeMemory (checkCounterReset (example_counts 1000)
                 (checkBoundaries example_env ''b1'' ?new))))
              (perfCountsToHist (diffPerfs (example_counts 1000)
                 (lastPerfCounts (checkCounterReset (example_counts 1000)
                    (checkBoundaries example_env ''b1'' ?new)))))])"
    using C6_save_gate [OF refl refl refl, where e = example_env
      and inp = "example_input 60000 ''b1'' 1000" and pb = "''b1''"
      and pm = "example_counts 1000" and st = ?new] g0 by blast
  have p1: "processSample example_env (example_input 120000 ''b1'' 2000) ''b1''
              (example_counts 2000) ?st1
      = ?st1\<lparr>lastPerfCounts := Some (example_counts 2000)\<rparr>"
    using C6_save_gate [OF refl refl refl, where e = example_env
      and inp = "example_input 120000 ''b1'' 2000" and pb = "''b1''"
      and pm = "example_counts 2000" and st = ?st1] g1 by blast
  have p2: "statsLog (processSample example_env (example_input 360000 ''b1'' 5000) ''b1''
              (example_counts 5000) ?st2)
      = optimizeStatsLog example_env (statsLog ?st2 @
          [data (now_c (example_input 360000 ''b1'' 5000))
             (onlineCount (example_input 360000 ''b1'' 5000))
             (lastFxsMemory ?st2) (map_option used (lastNodeMemory ?st2))
             (perfCountsToHist (diffPerfs (example_counts 5000)
                (Some (counts \<lparr>ts_saved = 60000, counts = example_counts 1000\<rparr>))))])"
    using C6_save_gate [OF refl refl refl, where e = example_env
      and inp = "example_input 360000 ''b1'' 5000" and pb = "''b1''"
      and pm = "example_counts 5000" and st = ?st2] g2 by blast
  show ?thesis
    unfolding p0 p1 p2 by (simp add: ex_defs)
qed

lemma checkCounterReset_both:
  "lastPerfCounts st = Some c \<Longrightarrow> count (svMain pm) < count (svMain c) \<Longrightarrow>
   checkCounterReset pm st = st\<lparr>lastPerfCounts := None, lastPerfSaved := None\<rparr>"
  by (simp add: checkCounterReset_def resetPerfState_def)

lemma checkCounterReset_saved_only:
  "lastPerfCounts st = None \<or> (\<exists>c. lastPerfCounts st = Some c \<and> count (svMain c) \<le> count (svMain pm)) \<Longrightarrow>
   lastPerfSaved st = Some s \<Longrightarrow> count (svMain pm) < count (svMain (counts s)) \<Longrightarrow>
   checkCounterReset pm st = st\<lparr>lastPerfSaved := None\<rparr>"
  by (auto simp: checkCounterReset_def resetPerfState_def)

lemma checkCounterReset_counts_le:
  "lastPerfCounts (checkCounterReset pm st) = Some c \<Longrightarrow> count (svMain c) \<le> count (svMain pm)"
  by (auto simp: checkCounterReset_def resetPerfState_def split: if_splits option.splits)

lemma checkCounterReset_saved_le:
  "lastPerfSaved (checkCounterReset pm st) = Some s \<Longrightarrow>
   count (svMain (counts s)) \<le> count (svMain pm)"
  by (auto simp: checkCounterReset_def resetPerfState_def split: if_splits option.splits)

lemma count_h_svMain_diff:
  "count_h (svMain (perfCountsToHist (diffPerfs pm (Some c))))
     = count (svMain pm) - count (svMain c)"
  by (simp add: perfCountsToHist_def toHistogram_def diffPerfs_def delta_def)

text \<open>
  On the states that a collector reaches from its construction and load, a saved sample
  never has more \<^verbatim>\<open>svMain\<close> ticks than the last full sample. So whenever the fresh count is
  lower than the count of the last saved sample, the first test of the counter check holds
  and both samples are reset.
\<close>

lemma savedBelowFull_processSample: "savedBelowFull (processSample e inp pb pm st)"
proof (cases "perfHistToSave e (now_c inp) pm
          (perfCountsToHist (diffPerfs pm
             (lastPerfCounts (checkCounterReset pm (checkBoundaries e pb st)))))
          (lastPerfSaved (checkCounterReset pm (checkBoundaries e pb st)))")
  case None
  then obtain s where s: "lastPerfSaved (checkCounterReset pm (checkBoundaries e pb st)) = Some s"
    by (auto simp: perfHistToSave_def split: option.splits)
  then show ?thesis
    using checkCounterReset_saved_le [OF s]
    by (simp add: processSample_not_saved [OF None] savedBelowFull_def)
next
  case (Some h)
  show ?thesis
    by (simp add: processSample_saved [OF Some] savedBelowFull_def saveStatsHistory_fields)
qed

lemma savedBelowFull_exec: "savedBelowFull st \<Longrightarrow> savedBelowFull (exec e st op)"
proof (cases op)
  case (CollectStats inp)
  assume inv: "savedBelowFull st"
  have mem: "savedBelowFull (st\<lparr>lastFxsMemory := v\<rparr>)" for v
    using inv by (simp add: savedBelowFull_def split: option.splits)
  show ?thesis
  proof (cases "reachesFetch inp")
    case True
    then show ?thesis
      using CollectStats inv mem
      by (simp add: collectStats_fetch Let_def savedBelowFull_processSample
          split: settled.splits prod.splits)
  next
    case False
    then show ?thesis using CollectStats inv by (simp add: collectStats_skip)
  qed
next
  case (LogServerBoot now wr bt)
  then show ?thesis by (simp add: savedBelowFull_def caches_logServerBoot)
next
  case (LogServerClose now wr r)
  then show ?thesis by (simp add: savedBelowFull_def caches_logServerClose)
next
  case (LogServerNodeMemory valid hu ht)
  assume "savedBelowFull st"
  then show ?thesis
    using LogServerNodeMemory
    by (simp add: savedBelowFull_def logServerNodeMemory_def split: option.splits)
qed

lemma savedBelowFull_run:
  "savedBelowFull (run e ops (loadStatsHistory e (new_PerformanceCollector file)))"
proof (induction ops rule: rev_induct)
  case Nil
  show ?case
    by (simp add: run_def savedBelowFull_def loadStatsHistory_def new_PerformanceCollector_def
        resetPerfState_def Let_def split: option.splits)
next
  case (snoc op ops)
  then show ?case by (simp add: run_snoc savedBelowFull_exec)
qed

lemma reachable_reset_both:
  assumes "st = run e ops (loadStatsHistory e (new_PerformanceCollector file))"
    and "lastPerfSaved st = Some s"
    and "count (svMain pm) < count (svMain (counts s))"
  shows "checkCounterReset pm st = st\<lparr>lastPerfCounts := None, lastPerfSaved := None\<rparr>"
proof -
  have "savedBelowFull st" using assms(1) savedBelowFull_run by simp
  then obtain c where "lastPerfCounts st = Some c" "count (svMain (counts s)) \<le> count (svMain c)"
    using assms(2) by (auto simp: savedBelowFull_def split: option.splits)
  then show ?thesis
    using assms(3) checkCounterReset_both [of st c pm] by simp
qed

lemma nonNegHist_toHistogram: "nonNegCount c \<Longrightarrow> nonNegHist (toHistogram c)"
  by (auto simp: nonNegCount_def nonNegHist_def toHistogram_def list_all_iff)

lemma nonNegHists_perfCountsToHist: "nonNegCounts c \<Longrightarrow> nonNegHists (perfCountsToHist c)"
  by (simp add: nonNegCounts_def nonNegHists_def perfCountsToHist_def nonNegHist_toHistogram)

text \<open>
  C7, amended: let the collector be in a state that it reaches from its construction. In
  \<^verbatim>\<open>collectStats\<close>, if the fresh \<^verbatim>\<open>svMain\<close> count is lower than that of the last full sample,
  both the last full sample and the last saved sample are reset; independently, if it is
  lower than the count of the last saved sample, the last saved baseline is reset, and the
  last full sample with it, since it is then lower than the count of the last full sample
  too. On this reset path no difference is taken: the histogram computed next, which is
  also the one saved, is that of the fresh counters, with no negative entry when the fresh
  counters have none. And after the check, reset or not, the \<^verbatim>\<open>svMain\<close> tick count of a
  histogram computed against the last full sample or against the last saved sample is not
  negative.
\<close>

theorem C7_counter_reset:
  assumes "st = run e ops (loadStatsHistory e (new_PerformanceCollector stored))"
  shows
   "(\<forall>c. lastPerfCounts st = Some c \<and> count (svMain pm) < count (svMain c) \<longrightarrow>
       checkCounterReset pm st = st\<lparr>lastPerfCounts := None, lastPerfSaved := None\<rparr>)
    \<and> (\<forall>s. lastPerfSaved st = Some s \<and> count (svMain pm) < count (svMain (counts s)) \<longrightarrow>
       checkCounterReset pm st = st\<lparr>lastPerfCounts := None, lastPerfSaved := None\<rparr>)
    \<and> ((\<exists>c. lastPerfCounts st = Some c \<and> count (svMain pm) < count (svMain c))
        \<or> (\<exists>s. lastPerfSaved st = Some s \<and> count (svMain pm) < count (svMain (counts s)))
        \<longrightarrow>
        perfCountsToHist (diffPerfs pm (lastPerfCounts (checkCounterReset pm st)))
          = perfCountsToHist pm
        \<and> perfHistToSave e now pm (perfCountsToHist pm)
              (lastPerfSaved (checkCounterReset pm st))
          = Some (perfCountsToHist pm)
        \<and> (nonNegCounts pm \<longrightarrow> nonNegHists (perfCountsToHist pm)))
    \<and> (\<forall>c. lastPerfCounts (checkCounterReset pm st) = Some c \<longrightarrow>
       0 \<le> count_h (svMain (perfCountsToHist (diffPerfs pm (Some c)))))
    \<and> (\<forall>s. lastPerfSaved (checkCounterReset pm st) = Some s \<longrightarrow>
       0 \<le> count_h (svMain (perfCountsToHist (diffPerfs pm (Some (counts s))))))"
proof (intro conjI allI impI)
  fix c
  assume "lastPerfCounts st = Some c \<and> count (svMain pm) < count (svMain c)"
  then show "checkCounterReset pm st = st\<lparr>lastPerfCounts := None, lastPerfSaved := None\<rparr>"
    using checkCounterReset_both [of st c pm] by simp
next
  fix s
  assume "lastPerfSaved st = Some s \<and> count (svMain pm) < count (svMain (counts s))"
  then show "checkCounterReset pm st = st\<lparr>lastPerfCounts := None, lastPerfSaved := None\<rparr>"
    using reachable_reset_both [OF assms, of s pm] by simp
next
  assume a: "(\<exists>c. lastPerfCounts st = Some c \<and> count (svMain pm) < count (svMain c))
        \<or> (\<exists>s. lastPerfSaved st = Some s \<and> count (svMain pm) < count (svMain (counts s)))"
  have both: "checkCounterReset pm st = st\<lparr>lastPerfCounts := None, lastPerfSaved := None\<rparr>"
    using a checkCounterReset_both [of st _ pm] reachable_reset_both [OF assms, of _ pm]
    by blast
  show "perfCountsToHist (diffPerfs pm (lastPerfCounts (checkCounterReset pm st)))
          = perfCountsToHist pm"
    by (simp add: both diffPerfs_def)
  show "perfHistToSave e now pm (perfCountsToHist pm)
              (lastPerfSaved (checkCounterReset pm st))
          = Some (perfCountsToHist pm)"
    by (simp add: both perfHistToSave_def)
  show "nonNegHists (perfCountsToHist pm)" if "nonNegCounts pm"
    using that by (rule nonNegHists_perfCountsToHist)
next
  fix c
  assume "lastPerfCounts (checkCounterReset pm st) = Some c"
  then show "0 \<le> count_h (svMain (perfCountsToHist (diffPerfs pm (Some c))))"
    using checkCounterReset_counts_le [of pm st c] by (simp add: count_h_svMain_diff)
next
  fix s
  assume "lastPerfSaved (checkCounterReset pm st) = Some s"
  then show "0 \<le> count_h (svMain (perfCountsToHist (diffPerfs pm (Some (counts s)))))"
    using checkCounterReset_saved_le [of pm st s] by (simp add: count_h_svMain_diff)
qed

text \<open>
  C7, as stated, on a collector that saved a sample with 5000 ticks: the fresh count 1000
  is lower than the count of the last saved sample, and the last full sample is reset too,
  not only the last saved baseline.
\<close>

theorem C7_both_reset_counterexample:
  "lastPerfSaved (run example_env [CollectStats (example_input 60000 ''b1'' 5000)]
       (new_PerformanceCollector None))
     = Some \<lparr>ts_saved = 60000, counts = example_counts 5000\<rparr>
   \<and> lastPerfCounts (run example_env [CollectStats (example_input 60000 ''b1'' 5000)]
       (new_PerformanceCollector None)) = Some (example_counts 5000)
   \<and> count (svMain (example_counts 1000)) < count (svMain (example_counts 5000))
   \<and> lastPerfCounts (checkCounterReset (example_counts 1000)
        (run example_env [CollectStats (example_input 60000 ''b1'' 5000)]
           (new_PerformanceCollector None))) = None
   \<and> lastPerfSaved (checkCounterReset (example_counts 1000)
        (run example_env [CollectStats (example_input 60000 ''b1'' 5000)]
           (new_PerformanceCollector None))) = None"
  by (simp add: ex_defs)



text \<open>
  C7 on a collector that was constructed without a file and saved a sample with 5000 ticks:
  a fresh count of 1000 resets both samples, and the histogram computed next is that of the
  fresh counters, without a negative entry; a fresh count of 6000 resets nothing, and the
  delta to the last full sample is not negative.
\<close>

theorem C7_counter_reset_witness:
  "checkCounterReset (example_counts 1000)
       (run example_env [CollectStats (example_input 60000 ''b1'' 5000)]
          (loadStatsHistory example_env (new_PerformanceCollector None)))
     = (run example_env [CollectStats (example_input 60000 ''b1'' 5000)]
          (loadStatsHistory example_env (new_PerformanceCollector None)))
         \<lparr>lastPerfCounts := None, lastPerfSaved := None\<rparr>
   \<and> perfCountsToHist (diffPerfs (example_counts 1000)
        (lastPerfCounts (checkCounterReset (example_counts 1000)
           (run example_env [CollectStats (example_input 60000 ''b1'' 5000)]
              (loadStatsHistory example_env (new_PerformanceCollector None))))))
     = perfCountsToHist (example_counts 1000)
   \<and> nonNegHists (perfCountsToHist (example_counts 1000))
   \<and> (0::int) \<le> count_h (svMain (perfCountsToHist
         (diffPerfs (example_counts 6000) (Some (example_counts 5000)))))"
proof -
  let ?base = "run example_env [CollectStats (example_input 60000 ''b1'' 5000)]
          (loadStatsHistory example_env (new_PerformanceCollector None))"
  have h1: "lastPerfSaved ?base = Some \<lparr>ts_saved = 60000, counts = example_counts 5000\<rparr>
            \<and> count (svMain (example_counts 1000))
                < count (svMain (counts \<lparr>ts_saved = 60000, counts = example_counts 5000\<rparr>))"
    by (simp add: ex_defs loadStatsHistory_def)
  have h2: "nonNegCounts (example_counts 1000)"
    by (simp add: nonNegCounts_def nonNegCount_def example_counts_def)
  have h3: "lastPerfCounts (checkCounterReset (example_counts 6000) ?base)
              = Some (example_counts 5000)"
    by (simp add: ex_defs loadStatsHistory_def)
  note low = C7_counter_reset [OF refl, where e = example_env
      and ops = "[CollectStats (example_input 60000 ''b1'' 5000)]" and stored = None
      and pm = "example_counts 1000" and now = 120000]
  note high = C7_counter_reset [OF refl, where e = example_env
      and ops = "[CollectStats (example_input 60000 ''b1'' 5000)]" and stored = None
      and pm = "example_counts 6000" and now = 120000]
  have r1: "checkCounterReset (example_counts 1000) ?base
              = ?base\<lparr>lastPerfCounts := None, lastPerfSaved := None\<rparr>"
    using low h1 by blast
  have r2: "perfCountsToHist (diffPerfs (example_counts 1000)
              (lastPerfCounts (checkCounterReset (example_counts 1000) ?base)))
            = perfCountsToHist (example_counts 1000)
          \<and> nonNegHists (perfCountsToHist (example_counts 1000))"
    using low h1 h2 by blast
  have r3: "0 \<le> count_h (svMain (perfCountsToHist
         (diffPerfs (example_counts 6000) (Some (example_counts 5000)))))"
    using high h3 by blast
  show ?thesis
    using r1 r2 r3 by simp
qed

lemma memory_checks:
  "lastFxsMemory (checkCounterReset pm (checkBoundaries e pb st)) = lastFxsMemory st
   \<and> lastNodeMemory (checkCounterReset pm (checkBoundaries e pb st)) = lastNodeMemory st"
  by (simp add: checkCounterReset_def checkBoundaries_def resetPerfState_def
      split: option.splits)

lemma memory_processSample:
  "lastFxsMemory (processSample e inp pb pm st) = lastFxsMemory st
   \<and> lastNodeMemory (processSample e inp pb pm st) = lastNodeMemory st"
proof (cases "perfHistToSave e (now_c inp) pm
          (perfCountsToHist (diffPerfs pm
             (lastPerfCounts (checkCounterReset pm (checkBoundaries e pb st)))))
          (lastPerfSaved (checkCounterReset pm (checkBoundaries e pb st)))")
  case None
  show ?thesis
    by (simp add: processSample_not_saved [OF None] memory_checks)
next
  case (Some h)
  show ?thesis
    by (simp add: processSample_saved [OF Some] saveStatsHistory_fields memory_checks)
qed

lemma lastPerfCounts_processSample:
  "lastPerfCounts (processSample e inp pb pm st) = Some pm"
proof (cases "perfHistToSave e (now_c inp) pm
          (perfCountsToHist (diffPerfs pm
             (lastPerfCounts (checkCounterReset pm (checkBoundaries e pb st)))))
          (lastPerfSaved (checkCounterReset pm (checkBoundaries e pb st)))")
  case None
  show ?thesis
    by (simp add: processSample_not_saved [OF None])
next
  case (Some h)
  show ?thesis
    by (simp add: processSample_saved [OF Some] saveStatsHistory_fields)
qed

lemma collectStats_caches:
  assumes "reachesFetch inp"
  shows "lastNodeMemory (snd (collectStats e inp st)) = lastNodeMemory st"
    and "lastFxsMemory (snd (collectStats e inp st))
           = (case fetchFxsMemoryRes inp of Fulfilled v \<Rightarrow> v | Rejected r \<Rightarrow> lastFxsMemory st)"
    and "lastPerfCounts (snd (collectStats e inp st))
           = (case fetchRawPerfDataRes inp of
                Rejected r \<Rightarrow> lastPerfCounts st
              | Fulfilled (pb, pm) \<Rightarrow>
                  if notEnoughTicks e pm then lastPerfCounts st else Some pm)"
  by (simp_all add: collectStats_fetch [OF assms] Let_def memory_processSample
      lastPerfCounts_processSample split: settled.splits prod.splits)

lemma fxsMemory_exec:
  "lastFxsMemory st = None \<Longrightarrow> \<not> fetchesMemory op \<Longrightarrow> lastFxsMemory (exec e st op) = None"
proof (cases op)
  case (CollectStats inp)
  assume a: "lastFxsMemory st = None" "\<not> fetchesMemory op"
  show ?thesis
  proof (cases "reachesFetch inp")
    case True
    then show ?thesis
      using a CollectStats by (simp add: collectStats_caches split: settled.splits)
  next
    case False
    then show ?thesis using a CollectStats by (simp add: collectStats_skip)
  qed
qed (simp_all add: caches_logServerBoot caches_logServerClose logServerNodeMemory_def)

lemma nodeMemory_exec:
  "lastNodeMemory st = None \<Longrightarrow> \<not> logsNodeMemory op \<Longrightarrow> lastNodeMemory (exec e st op) = None"
proof (cases op)
  case (CollectStats inp)
  assume a: "lastNodeMemory st = None" "\<not> logsNodeMemory op"
  show ?thesis
  proof (cases "reachesFetch inp")
    case True
    then show ?thesis
      using a CollectStats by (simp add: collectStats_caches)
  next
    case False
    then show ?thesis using a CollectStats by (simp add: collectStats_skip)
  qed
qed (simp_all add: caches_logServerBoot caches_logServerClose logServerNodeMemory_def)

lemma perfCounts_exec:
  "lastPerfCounts st = None \<Longrightarrow> \<not> samplesPerf e op \<Longrightarrow> lastPerfCounts (exec e st op) = None"
proof (cases op)
  case (CollectStats inp)
  assume a: "lastPerfCounts st = None" "\<not> samplesPerf e op"
  show ?thesis
  proof (cases "reachesFetch inp")
    case True
    then show ?thesis
      using a CollectStats
      by (auto simp: collectStats_caches split: settled.splits prod.splits)
  next
    case False
    then show ?thesis using a CollectStats by (simp add: collectStats_skip)
  qed
qed (simp_all add: caches_logServerBoot caches_logServerClose logServerNodeMemory_def)

lemma fxsMemory_run:
  "lastFxsMemory st = None \<Longrightarrow> \<forall>op \<in> set ops. \<not> fetchesMemory op \<Longrightarrow>
   lastFxsMemory (run e ops st) = None"
  by (induction ops rule: rev_induct) (simp_all add: run_snoc fxsMemory_exec, simp add: run_def)

lemma nodeMemory_run:
  "lastNodeMemory st = None \<Longrightarrow> \<forall>op \<in> set ops. \<not> logsNodeMemory op \<Longrightarrow>
   lastNodeMemory (run e ops st) = None"
  by (induction ops rule: rev_induct) (simp_all add: run_snoc nodeMemory_exec, simp add: run_def)

lemma perfCounts_run:
  "lastPerfCounts st = None \<Longrightarrow> \<forall>op \<in> set ops. \<not> samplesPerf e op \<Longrightarrow>
   lastPerfCounts (run e ops st) = None"
  by (induction ops rule: rev_induct) (simp_all add: run_snoc perfCounts_exec, simp add: run_def)

lemma repopulated_exec:
  "(fetchesMemory op \<longrightarrow> lastFxsMemory (exec e st op) \<noteq> None)
   \<and> (logsNodeMemory op \<longrightarrow> lastNodeMemory (exec e st op) \<noteq> None)
   \<and> (samplesPerf e op \<longrightarrow> lastPerfCounts (exec e st op) \<noteq> None)"
proof (cases op)
  case (CollectStats inp)
  show ?thesis
  proof (cases "reachesFetch inp")
    case True
    then show ?thesis
      using CollectStats
      by (auto simp: collectStats_caches split: settled.splits prod.splits)
  next
    case False
    then show ?thesis using CollectStats by simp
  qed
qed (simp_all add: logServerNodeMemory_def)

lemma getRecentStats_fields:
  "fxsMemory_r (getRecentStats j st) = lastFxsMemory st
   \<and> nodeMemory_r (getRecentStats j st) = lastNodeMemory st
   \<and> (perf_r (getRecentStats j st) = None) = (lastPerfCounts st = None)"
  by (simp add: getRecentStats_def split: option.splits)

text \<open>
  C10, as stated, on a new collector after a boot: \<^verbatim>\<open>fxsMemory\<close> is undefined. A collection
  whose counters have 599 ticks, below the 600 required, and a collection whose counter
  fetch is rejected both abort; neither is a successful collection, \<^verbatim>\<open>perf\<close> stays undefined
  after them, and yet each leaves \<^verbatim>\<open>fxsMemory\<close> defined, with the 512 of its memory fetch.
\<close>

theorem C10_aborted_cycle_counterexample:
  "fxsMemory_r (getRecentStats ()
      (logServerBoot example_env 1000 True 100 (new_PerformanceCollector None))) = None
   \<and> fst (collectStats example_env (example_input 60000 ''b1'' 599)
        (logServerBoot example_env 1000 True 100 (new_PerformanceCollector None))) = None
   \<and> getRecentStats ()
        (snd (collectStats example_env (example_input 60000 ''b1'' 599)
           (logServerBoot example_env 1000 True 100 (new_PerformanceCollector None))))
      = \<lparr>joinLeaveTally30m = (), fxsMemory_r = Some 512, nodeMemory_r = None, perf_r = None\<rparr>
   \<and> fst (collectStats example_env
        ((example_input 60000 ''b1'' 1000)\<lparr>fetchRawPerfDataRes := Rejected ''timeout''\<rparr>)
        (logServerBoot example_env 1000 True 100 (new_PerformanceCollector None)))
      = Some (FetchRejected ''timeout'')
   \<and> getRecentStats ()
        (snd (collectStats example_env
           ((example_input 60000 ''b1'' 1000)\<lparr>fetchRawPerfDataRes := Rejected ''timeout''\<rparr>)
           (logServerBoot example_env 1000 True 100 (new_PerformanceCollector None))))
      = \<lparr>joinLeaveTally30m = (), fxsMemory_r = Some 512, nodeMemory_r = None, perf_r = None\<rparr>"
  by (simp add: ex_defs getRecentStats_def)

text \<open>
  C10, amended: right after \<^verbatim>\<open>logServerBoot\<close> or \<^verbatim>\<open>logServerClose\<close>, in whichever branch (the
  duplicate close included), \<^verbatim>\<open>getRecentStats()\<close> returns \<^verbatim>\<open>undefined\<close> for \<^verbatim>\<open>fxsMemory\<close>,
  \<^verbatim>\<open>nodeMemory\<close> and \<^verbatim>\<open>perf\<close>. Over any further calls, \<^verbatim>\<open>perf\<close> stays undefined until the
  next collection that fetches the counters and passes the tick check, \<^verbatim>\<open>nodeMemory\<close> until
  the next memory event that passes validation, and \<^verbatim>\<open>fxsMemory\<close> until the next collection
  cycle whose memory fetch is fulfilled with a number, be the cycle aborted afterwards or
  not; and a call of that kind does make the value defined again.
\<close>

theorem C10_caches_cleared:
  assumes "s0 = logServerBoot e now wr bt st \<or> s0 = logServerClose e now wr r st"
  shows "fxsMemory_r (getRecentStats j s0) = None
       \<and> nodeMemory_r (getRecentStats j s0) = None
       \<and> perf_r (getRecentStats j s0) = None
       \<and> ((\<forall>op \<in> set ops. \<not> fetchesMemory op) \<longrightarrow>
            fxsMemory_r (getRecentStats j (run e ops s0)) = None)
       \<and> ((\<forall>op \<in> set ops. \<not> logsNodeMemory op) \<longrightarrow>
            nodeMemory_r (getRecentStats j (run e ops s0)) = None)
       \<and> ((\<forall>op \<in> set ops. \<not> samplesPerf e op) \<longrightarrow>
            perf_r (getRecentStats j (run e ops s0)) = None)
       \<and> (fetchesMemory op \<longrightarrow>
            fxsMemory_r (getRecentStats j (exec e (run e ops s0) op)) \<noteq> None)
       \<and> (logsNodeMemory op \<longrightarrow>
            nodeMemory_r (getRecentStats j (exec e (run e ops s0) op)) \<noteq> None)
       \<and> (samplesPerf e op \<longrightarrow>
            perf_r (getRecentStats j (exec e (run e ops s0) op)) \<noteq> None)"
proof -
  have cleared: "lastFxsMemory s0 = None \<and> lastNodeMemory s0 = None \<and> lastPerfCounts s0 = None"
    using assms caches_logServerBoot [of e now wr bt st] caches_logServerClose [of e now wr r st]
    by auto
  show ?thesis
    using cleared fxsMemory_run [where st = s0 and ops = ops and e = e]
      nodeMemory_run [where st = s0 and ops = ops and e = e]
      perfCounts_run [where st = s0 and ops = ops and e = e]
      repopulated_exec [where op = op and e = e and st = "run e ops s0"]
    by (simp add: getRecentStats_fields)
qed


text \<open>
  C10 on a concrete run: a close after a boot and a collection clears the three values;
  a duplicate close, a collection whose memory fetch fails and whose counters have too few
  ticks, and an invalid memory event leave them undefined; the next collection that
  fetches the memory defines \<^verbatim>\<open>fxsMemory\<close> again.
\<close>

theorem C10_caches_cleared_witness:
  "getRecentStats ()
      (logServerClose example_env 400000 True ''quit''
         (run example_env [LogServerBoot 1000 True 100,
            CollectStats (example_input 60000 ''b1'' 1000)] (new_PerformanceCollector None)))
     = \<lparr>joinLeaveTally30m = (), fxsMemory_r = None, nodeMemory_r = None, perf_r = None\<rparr>
   \<and> getRecentStats ()
      (run example_env
         [LogServerClose 500000 True ''again'',
          CollectStats ((example_input 600000 ''b1'' 100)
                          \<lparr>fetchFxsMemoryRes := Rejected ''no memory''\<rparr>),
          LogServerNodeMemory False 1 2]
         (logServerClose example_env 400000 True ''quit''
            (run example_env [LogServerBoot 1000 True 100,
               CollectStats (example_input 60000 ''b1'' 1000)] (new_PerformanceCollector None))))
     = \<lparr>joinLeaveTally30m = (), fxsMemory_r = None, nodeMemory_r = None, perf_r = None\<rparr>
   \<and> fxsMemory_r (getRecentStats ()
      (exec example_env
         (run example_env
            [LogServerClose 500000 True ''again'',
             CollectStats ((example_input 600000 ''b1'' 100)
                             \<lparr>fetchFxsMemoryRes := Rejected ''no memory''\<rparr>),
             LogServerNodeMemory False 1 2]
            (logServerClose example_env 400000 True ''quit''
               (run example_env [LogServerBoot 1000 True 100,
                  CollectStats (example_input 60000 ''b1'' 1000)]
                  (new_PerformanceCollector None))))
         (CollectStats (example_input 700000 ''b1'' 2000)))) \<noteq> None"
proof -
  let ?base = "run example_env [LogServerBoot 1000 True 100,
            CollectStats (example_input 60000 ''b1'' 1000)] (new_PerformanceCollector None)"
  let ?cleared = "logServerClose example_env 400000 True ''quit'' ?base"
  let ?ops = "[LogServerClose 500000 True ''again'',
          CollectStats ((example_input 600000 ''b1'' 100)
                          \<lparr>fetchFxsMemoryRes := Rejected ''no memory''\<rparr>),
          LogServerNodeMemory False 1 2] :: string collector_op list"
  let ?op = "CollectStats (example_input 700000 ''b1'' 2000) :: string collector_op"
  have quiet: "(\<forall>op \<in> set ?ops. \<not> fetchesMemory op)
      \<and> (\<forall>op \<in> set ?ops. \<not> logsNodeMemory op)
      \<and> (\<forall>op \<in> set ?ops. \<not> samplesPerf example_env op)"
    by (simp add: example_input_def example_counts_def example_env_def notEnoughTicks_def)
  have loud: "fetchesMemory ?op"
    by (simp add: example_input_def reachesFetch_def selectedHost_def)
  have start: "?cleared = logServerBoot example_env 400000 True 0 ?base
      \<or> ?cleared = logServerClose example_env 400000 True ''quit'' ?base"
    by simp
  note c10 = C10_caches_cleared [where ?s0.0 = ?cleared and e = example_env and now = 400000
      and wr = True and r = "''quit''" and st = ?base and ops = ?ops and op = ?op
      and j = "()" and bt = 0, OF start]
  have "fxsMemory_r (getRecentStats () ?cleared) = None
      \<and> nodeMemory_r (getRecentStats () ?cleared) = None
      \<and> perf_r (getRecentStats () ?cleared) = None
      \<and> fxsMemory_r (getRecentStats () (run example_env ?ops ?cleared)) = None
      \<and> nodeMemory_r (getRecentStats () (run example_env ?ops ?cleared)) = None
      \<and> perf_r (getRecentStats () (run example_env ?ops ?cleared)) = None
      \<and> fxsMemory_r (getRecentStats () (exec example_env (run example_env ?ops ?cleared) ?op))
          \<noteq> None"
    using c10 quiet loud by blast
  then show ?thesis
    by (simp add: getRecentStats_def)
qed

lemma js_sum_snoc: "js_sum (xs @ [x]) = js_add (js_sum xs) x"
  by (simp add: js_sum_def)

lemma js_sum_append: "js_sum (xs @ ys) = foldl js_add (js_sum xs) ys"
  by (simp add: js_sum_def)

lemma bucketTicks_snoc: "bucketTicks (qs @ [x]) i = js_add (bucketTicks qs i) (tickCount x i)"
  by (simp add: bucketTicks_def js_sum_snoc)

lemma totalTicks_snoc:
  "totalTicks e (qs @ [x])
     = foldl js_add (totalTicks e qs) (map (tickCount x) [0..<PERF_DATA_BUCKET_COUNT e])"
  by (simp add: totalTicks_def js_sum_append)

lemma bucketStep_loop:
  "n \<le> length (cumBuckets acc) \<Longrightarrow>
   foldl (bucketStep x) acc [0..<n] =
     acc\<lparr>cumTicks := foldl js_add (cumTicks acc) (map (tickCount x) [0..<n]),
         cumBuckets := map (\<lambda>i. if i < n then js_add (cumBuckets acc ! i) (tickCount x i)
                                 else cumBuckets acc ! i)
                         [0..<length (cumBuckets acc)]\<rparr>"
proof (induction n)
  case 0
  show ?case by (simp add: map_nth)
next
  case (Suc n)
  have n: "n < length (cumBuckets acc)" using Suc.prems by simp
  have upd: "(map (\<lambda>i. if i < n then js_add (cumBuckets acc ! i) (tickCount x i)
                         else cumBuckets acc ! i) [0..<length (cumBuckets acc)])
               [n := js_add (cumBuckets acc ! n) (tickCount x n)]
             = map (\<lambda>i. if i < Suc n then js_add (cumBuckets acc ! i) (tickCount x i)
                         else cumBuckets acc ! i) [0..<length (cumBuckets acc)]"
  proof (rule nth_equalityI)
    show "length ((map (\<lambda>i. if i < n then js_add (cumBuckets acc ! i) (tickCount x i)
                         else cumBuckets acc ! i) [0..<length (cumBuckets acc)])
               [n := js_add (cumBuckets acc ! n) (tickCount x n)])
          = length (map (\<lambda>i. if i < Suc n then js_add (cumBuckets acc ! i) (tickCount x i)
                         else cumBuckets acc ! i) [0..<length (cumBuckets acc)])"
      by simp
  next
    fix i
    assume "i < length ((map (\<lambda>i. if i < n then js_add (cumBuckets acc ! i) (tickCount x i)
                         else cumBuckets acc ! i) [0..<length (cumBuckets acc)])
               [n := js_add (cumBuckets acc ! n) (tickCount x n)])"
    then have i: "i < length (cumBuckets acc)" by simp
    show "((map (\<lambda>i. if i < n then js_add (cumBuckets acc ! i) (tickCount x i)
                         else cumBuckets acc ! i) [0..<length (cumBuckets acc)])
               [n := js_add (cumBuckets acc ! n) (tickCount x n)]) ! i
          = (map (\<lambda>i. if i < Suc n then js_add (cumBuckets acc ! i) (tickCount x i)
                         else cumBuckets acc ! i) [0..<length (cumBuckets acc)]) ! i"
      using i by (cases "i = n") (simp_all add: nth_list_update)
  qed
  have "foldl (bucketStep x) acc [0..<Suc n]
          = bucketStep x (foldl (bucketStep x) acc [0..<n]) n"
    by simp
  also have "\<dots> = bucketStep x
      (acc\<lparr>cumTicks := foldl js_add (cumTicks acc) (map (tickCount x) [0..<n]),
           cumBuckets := map (\<lambda>i. if i < n then js_add (cumBuckets acc ! i) (tickCount x i)
                                   else cumBuckets acc ! i)
                           [0..<length (cumBuckets acc)]\<rparr>) n"
    using Suc.IH n by simp
  also have "\<dots> = acc\<lparr>cumTicks := foldl js_add (cumTicks acc) (map (tickCount x) [0..<Suc n]),
         cumBuckets := map (\<lambda>i. if i < Suc n then js_add (cumBuckets acc ! i) (tickCount x i)
                                 else cumBuckets acc ! i)
                         [0..<length (cumBuckets acc)]\<rparr>"
    unfolding bucketStep_def Let_def tickCount_def [symmetric]
    using n by (simp add: upd [symmetric])
  finally show ?case .
qed

lemma scanEntry_skip:
  "\<not> qualifies e now x \<Longrightarrow> scanEntry e (now - 6 * 60 * 60 * 1000) acc x = acc"
  by (auto simp: scanEntry_def qualifies_def)

lemma scanEntry_qualifies:
  assumes "qualifies e now x"
  shows "scanEntry e (now - 6 * 60 * 60 * 1000) (scanned e qs) x = scanned e (qs @ [x])"
proof -
  let ?B = "PERF_DATA_BUCKET_COUNT e"
  let ?acc1 = "(scanned e qs)\<lparr>totalSnapshots := totalSnapshots (scanned e qs) + 1,
                  players_acc := players_acc (scanned e qs) @ [players x],
                  fxsMemory_acc := fxsMemory_acc (scanned e qs) @ [fxsMemory x],
                  nodeMemory_acc := nodeMemory_acc (scanned e qs) @ [nodeMemory x]\<rparr>"
  have len: "?B \<le> length (cumBuckets ?acc1)"
    by (simp add: scanned_def)
  have step: "scanEntry e (now - 6 * 60 * 60 * 1000) (scanned e qs) x
                = foldl (bucketStep x) ?acc1 [0..<?B]"
    using assms by (simp add: scanEntry_def qualifies_def Let_def)
  have buckets: "map (\<lambda>i. if i < ?B then js_add (cumBuckets ?acc1 ! i) (tickCount x i)
                            else cumBuckets ?acc1 ! i) [0..<length (cumBuckets ?acc1)]
                 = map (bucketTicks (qs @ [x])) [0..<?B]"
    by (simp add: scanned_def bucketTicks_snoc)
  show ?thesis
    unfolding step bucketStep_loop [OF len] buckets
    by (simp add: scanned_def totalTicks_snoc)
qed

lemma scan_fold:
  "foldl (scanEntry e (now - 6 * 60 * 60 * 1000)) (scanned e []) entries
     = scanned e (filter (qualifies e now) entries)"
proof (induction entries rule: rev_induct)
  case Nil
  show ?case by simp
next
  case (snoc x entries)
  show ?case
  proof (cases "qualifies e now x")
    case True
    then show ?thesis
      using snoc.IH scanEntry_qualifies [of e now x "filter (qualifies e now) entries"]
      by simp
  next
    case False
    then show ?thesis
      using snoc.IH scanEntry_skip [of e now x] by simp
  qed
qed

lemma scanned_Nil:
  "scanned e [] =
     \<lparr>cumBuckets = replicate (PERF_DATA_BUCKET_COUNT e) (Some 0),
      cumTicks = Some 0,
      totalSnapshots = 0,
      players_acc = [],
      fxsMemory_acc = [],
      nodeMemory_acc = []\<rparr>"
proof -
  have "bucketTicks [] = (\<lambda>i. Some 0)"
    by (rule ext) (simp add: bucketTicks_def js_sum_def)
  then show ?thesis
    by (simp add: scanned_def totalTicks_def js_sum_def map_replicate_trivial)
qed

lemma getServerPerfSummary_spec:
  "getServerPerfSummary e now st = summary_spec e now (statsLog st)"
proof -
  have "getServerPerfSummary e now st =
      (let acc = foldl (scanEntry e (now - 6 * 60 * 60 * 1000)) (scanned e []) (statsLog st)
       in if totalSnapshots acc < 36 then None
          else Some
            \<lparr>snaps = totalSnapshots acc,
             freqs_s = map (\<lambda>cumAvg. js_div cumAvg (cumTicks acc)) (cumBuckets acc),
             players_s = d3_median e (map (\<lambda>p. Some (of_int p)) (players_acc acc)),
             fxsMemory_s = d3_median e (fxsMemory_acc acc),
             nodeMemory_s = d3_median e (nodeMemory_acc acc)\<rparr>)"
    by (simp add: getServerPerfSummary_def scanned_Nil Let_def)
  also have "\<dots> = summary_spec e now (statsLog st)"
    unfolding scan_fold by (simp add: summary_spec_def scanned_def Let_def comp_def)
  finally show ?thesis .
qed

lemma js_sum_Some: "foldl js_add (Some a) (map Some xs) = Some (a + sum_list xs)"
  by (induction xs arbitrary: a) (simp_all add: js_add_def add.assoc)

lemma tickCount_ticks:
  "i < length (freqs (svMain (perf q))) \<Longrightarrow> tickCount q i = Some (ticks q i)"
  by (simp add: tickCount_def ticks_def js_index_def js_mul_def)

lemma bucketTicks_ticks:
  assumes "\<forall>q \<in> set qs. i < length (freqs (svMain (perf q)))"
  shows "bucketTicks qs i = Some (\<Sum>q\<leftarrow>qs. ticks q i)"
proof -
  have "map (\<lambda>q. tickCount q i) qs = map Some (map (\<lambda>q. ticks q i) qs)"
    using assms by (simp add: tickCount_ticks)
  then show ?thesis
    by (simp add: bucketTicks_def js_sum_def js_sum_Some del: map_map)
qed

lemma totalTicks_ticks:
  assumes "\<forall>q \<in> set qs. PERF_DATA_BUCKET_COUNT e \<le> length (freqs (svMain (perf q)))"
  shows "totalTicks e qs = Some (\<Sum>q\<leftarrow>qs. \<Sum>i\<leftarrow>[0..<PERF_DATA_BUCKET_COUNT e]. ticks q i)"
proof -
  have "concat (map (\<lambda>q. map (tickCount q) [0..<PERF_DATA_BUCKET_COUNT e]) qs)
        = map Some (concat (map (\<lambda>q. map (ticks q) [0..<PERF_DATA_BUCKET_COUNT e]) qs))"
    using assms by (induction qs) (simp_all add: tickCount_ticks)
  moreover have "sum_list (concat (map (\<lambda>q. map (ticks q) [0..<PERF_DATA_BUCKET_COUNT e]) qs))
        = (\<Sum>q\<leftarrow>qs. \<Sum>i\<leftarrow>[0..<PERF_DATA_BUCKET_COUNT e]. ticks q i)"
    by (induction qs) simp_all
  ultimately show ?thesis
    by (simp add: totalTicks_def js_sum_def js_sum_Some)
qed


text \<open>
  C2: \<^verbatim>\<open>getServerPerfSummary()\<close> computes the summary of the specification. With \<open>qs\<close> the
  entries of the log that are data entries, have a timestamp not older than six hours (the
  code puts no upper bound on it) and an \<^verbatim>\<open>svMain\<close> count that reaches the minimum: it returns
  \<^verbatim>\<open>null\<close> when \<open>qs\<close> has fewer than 36 entries; otherwise it returns their number, for each
  bucket the sum over \<open>qs\<close> of the tick counts rebuilt as frequency times count, divided by
  the sum of these tick counts over all buckets and all of \<open>qs\<close>, and the medians of
  \<^verbatim>\<open>players\<close>, \<^verbatim>\<open>fxsMemory\<close> and \<^verbatim>\<open>nodeMemory\<close> over \<open>qs\<close>. In plain rationals, when every entry
  of \<open>qs\<close> has a frequency for every bucket and the total is not zero, the frequency of
  bucket \<open>i\<close> is \<open>(\<Sum>q. ticks q i) / (\<Sum>q. \<Sum>i. ticks q i)\<close>: an aggregation weighted by the
  counts, not an average of the frequencies.
\<close>

theorem C2_summary:
  assumes "qs = filter (qualifies e now) (statsLog st)"
  shows "getServerPerfSummary e now st = summary_spec e now (statsLog st)
       \<and> (length qs < 36 \<longrightarrow> getServerPerfSummary e now st = None)
       \<and> (36 \<le> length qs \<longrightarrow>
            map_option snaps (getServerPerfSummary e now st) = Some (length qs)
            \<and> map_option freqs_s (getServerPerfSummary e now st)
                = Some (map (\<lambda>i. js_div (bucketTicks qs i) (totalTicks e qs))
                          [0..<PERF_DATA_BUCKET_COUNT e])
            \<and> map_option players_s (getServerPerfSummary e now st)
                = Some (d3_median e (map (\<lambda>q. Some (of_int (players q))) qs))
            \<and> map_option fxsMemory_s (getServerPerfSummary e now st)
                = Some (d3_median e (map fxsMemory qs))
            \<and> map_option nodeMemory_s (getServerPerfSummary e now st)
                = Some (d3_median e (map nodeMemory qs)))
       \<and> (36 \<le> length qs
            \<and> (\<forall>q \<in> set qs. PERF_DATA_BUCKET_COUNT e \<le> length (freqs (svMain (perf q))))
            \<and> (\<Sum>q\<leftarrow>qs. \<Sum>i\<leftarrow>[0..<PERF_DATA_BUCKET_COUNT e]. ticks q i) \<noteq> 0 \<longrightarrow>
            map_option freqs_s (getServerPerfSummary e now st)
              = Some (map (\<lambda>i. Some ((\<Sum>q\<leftarrow>qs. ticks q i)
                                        / (\<Sum>q\<leftarrow>qs. \<Sum>i\<leftarrow>[0..<PERF_DATA_BUCKET_COUNT e]. ticks q i)))
                        [0..<PERF_DATA_BUCKET_COUNT e]))"
proof (intro conjI impI)
  show spec: "getServerPerfSummary e now st = summary_spec e now (statsLog st)"
    by (rule getServerPerfSummary_spec)
  show "getServerPerfSummary e now st = None" if "length qs < 36"
    using that assms by (simp add: spec summary_spec_def Let_def)
  assume enough: "36 \<le> length qs"
  show "map_option snaps (getServerPerfSummary e now st) = Some (length qs)"
    using enough assms by (simp add: spec summary_spec_def Let_def)
  show "map_option freqs_s (getServerPerfSummary e now st)
          = Some (map (\<lambda>i. js_div (bucketTicks qs i) (totalTicks e qs))
                    [0..<PERF_DATA_BUCKET_COUNT e])"
    using enough assms by (simp add: spec summary_spec_def Let_def)
  show "map_option players_s (getServerPerfSummary e now st)
          = Some (d3_median e (map (\<lambda>q. Some (of_int (players q))) qs))"
    using enough assms by (simp add: spec summary_spec_def Let_def)
  show "map_option fxsMemory_s (getServerPerfSummary e now st)
          = Some (d3_median e (map fxsMemory qs))"
    using enough assms by (simp add: spec summary_spec_def Let_def)
  show "map_option nodeMemory_s (getServerPerfSummary e now st)
          = Some (d3_median e (map nodeMemory qs))"
    using enough assms by (simp add: spec summary_spec_def Let_def)
next
  assume a: "36 \<le> length qs
     \<and> (\<forall>q \<in> set qs. PERF_DATA_BUCKET_COUNT e \<le> length (freqs (svMain (perf q))))
     \<and> (\<Sum>q\<leftarrow>qs. \<Sum>i\<leftarrow>[0..<PERF_DATA_BUCKET_COUNT e]. ticks q i) \<noteq> 0"
  have total: "totalTicks e qs
      = Some (\<Sum>q\<leftarrow>qs. \<Sum>i\<leftarrow>[0..<PERF_DATA_BUCKET_COUNT e]. ticks q i)"
    using a totalTicks_ticks by blast
  have bucket: "bucketTicks qs i = Some (\<Sum>q\<leftarrow>qs. ticks q i)"
    if "i < PERF_DATA_BUCKET_COUNT e" for i
    using a that by (intro bucketTicks_ticks) force
  have "map (\<lambda>i. js_div (bucketTicks qs i) (totalTicks e qs)) [0..<PERF_DATA_BUCKET_COUNT e]
      = map (\<lambda>i. Some ((\<Sum>q\<leftarrow>qs. ticks q i)
                        / (\<Sum>q\<leftarrow>qs. \<Sum>i\<leftarrow>[0..<PERF_DATA_BUCKET_COUNT e]. ticks q i)))
          [0..<PERF_DATA_BUCKET_COUNT e]"
    using a by (simp add: total bucket js_div_def)
  then show "map_option freqs_s (getServerPerfSummary e now st)
              = Some (map (\<lambda>i. Some ((\<Sum>q\<leftarrow>qs. ticks q i)
                                        / (\<Sum>q\<leftarrow>qs. \<Sum>i\<leftarrow>[0..<PERF_DATA_BUCKET_COUNT e]. ticks q i)))
                        [0..<PERF_DATA_BUCKET_COUNT e])"
    using a assms by (simp add: getServerPerfSummary_spec summary_spec_def Let_def)
qed


text \<open>
  C2 on the example log: 36 entries qualify, 35 with 1000 ticks, half of them in the first
  bucket, and one with 3000 ticks in the first bucket. The first frequency is
  \<open>(35 * 500 + 3000) / 38000 = 41 / 76\<close>, where the average of the frequencies would be
  \<open>(35 / 2 + 1) / 36 = 37 / 72\<close>. Without its last entry the log has 35 qualifying entries
  and the summary is \<^verbatim>\<open>null\<close>.
\<close>

theorem C2_summary_witness:
  "getServerPerfSummary example_env 30000000 (example_collector example_log)
     = Some \<lparr>snaps = 36, freqs_s = [Some (41 / 76), Some (35 / 76), Some 0],
              players_s = Some 8, fxsMemory_s = Some 512, nodeMemory_s = Some 80\<rparr>
   \<and> getServerPerfSummary example_env 30000000 (example_collector (butlast example_log))
     = None"
proof -
  let ?qs = "filter (qualifies example_env 30000000) (statsLog (example_collector example_log))"
  let ?qs' = "filter (qualifies example_env 30000000)
                (statsLog (example_collector (butlast example_log)))"
  have log: "statsLog (example_collector entries) = entries" for entries
    by (simp add: example_collector_def)
  have spec: "summary_spec example_env 30000000 example_log
     = Some \<lparr>snaps = 36, freqs_s = [Some (41 / 76), Some (35 / 76), Some 0],
              players_s = Some 8, fxsMemory_s = Some 512, nodeMemory_s = Some 80\<rparr>"
    by code_simp
  have wf: "36 \<le> length ?qs
     \<and> (\<forall>q \<in> set ?qs. PERF_DATA_BUCKET_COUNT example_env \<le> length (freqs (svMain (perf q))))
     \<and> (\<Sum>q\<leftarrow>?qs. \<Sum>i\<leftarrow>[0..<PERF_DATA_BUCKET_COUNT example_env]. ticks q i) \<noteq> 0"
    unfolding log by code_simp
  have few: "length ?qs' < 36"
    unfolding log by code_simp
  note c2 = C2_summary [OF refl, of example_env 30000000 "example_collector example_log"]
  note c2' = C2_summary [OF refl, of example_env 30000000
      "example_collector (butlast example_log)"]
  have weighted: "map_option freqs_s
        (getServerPerfSummary example_env 30000000 (example_collector example_log))
      = Some (map (\<lambda>i. Some ((\<Sum>q\<leftarrow>?qs. ticks q i)
                / (\<Sum>q\<leftarrow>?qs. \<Sum>i\<leftarrow>[0..<PERF_DATA_BUCKET_COUNT example_env]. ticks q i)))
              [0..<PERF_DATA_BUCKET_COUNT example_env])"
    using c2 wf by blast
  have none: "getServerPerfSummary example_env 30000000
                (example_collector (butlast example_log)) = None"
    using c2' few by blast
  have "getServerPerfSummary example_env 30000000 (example_collector example_log)
          = summary_spec example_env 30000000 example_log"
    using c2 log by simp
  then show ?thesis
    using spec none weighted by simp
qed

end
